theory Spec2Isabelle
  imports Main "HOL-Library.Sublist"
begin

section \<open>The CSV cleaning pipeline of \<^verbatim>\<open>csv_log_processor.py\<close> and \<^verbatim>\<open>logcsvfile.py\<close>\<close>

text \<open>
  Both files define \<^verbatim>\<open>process_csv(file_path)\<close>: log a start line, read the clock, load the
  file with \<^verbatim>\<open>pd.read_csv\<close>, count the missing cells with \<^verbatim>\<open>df.isnull().sum().sum()\<close>, warn
  when the count is positive, replace the missing cells with \<^verbatim>\<open>df.fillna("UNKNOWN", inplace=True)\<close>,
  read the clock again and log the elapsed time; any \<^verbatim>\<open>Exception\<close> raised on the way is caught
  and logged. The two versions differ in the text of their messages and in the call that logs
  the failure (\<^verbatim>\<open>logging.exception\<close> against \<^verbatim>\<open>logging.error\<close>).
\<close>

subsection \<open>Python values and data frames\<close>

text \<open>
  A present cell holds a Python scalar. The payload of a float is kept as the text of its
  literal: nothing here computes with it. A missing cell is the one value \<open>NaN\<close>, which is what
  \<^verbatim>\<open>isnull\<close> detects and \<^verbatim>\<open>fillna\<close> replaces.
\<close>

datatype pyval = PyInt int | PyFloat string | PyBool bool | PyStr string

datatype cell = NaN | Val pyval

text \<open>
  A data frame is stored by column, as pandas stores it: the column labels in order, each with
  the cells of that column in record order.
\<close>

type_synonym dataframe = "(string \<times> cell list) list"

definition nrows :: "dataframe \<Rightarrow> nat" where
  "nrows df = (case df of [] \<Rightarrow> 0 | (name, col) # _ \<Rightarrow> length col)"

text \<open>Every column of a pandas frame has one cell per record.\<close>

definition frame_ok :: "dataframe \<Rightarrow> bool" where
  "frame_ok df = list_all (\<lambda>(name, col). length col = nrows df) df"

text \<open>The record at position \<open>i\<close>: the cell of every column at that position, by column label.\<close>

definition record_at :: "dataframe \<Rightarrow> nat \<Rightarrow> (string \<times> cell) list" where
  "record_at df i = map (\<lambda>(name, col). (name, col ! i)) df"

definition records :: "dataframe \<Rightarrow> (string \<times> cell) list list" where
  "records df = map (record_at df) [0..<nrows df]"

subsection \<open>Counting with pandas\<close>

text \<open>\<^verbatim>\<open>df.isnull()\<close>: a frame of the same shape holding \<open>True\<close> exactly at the missing cells.\<close>

definition isnull :: "dataframe \<Rightarrow> (string \<times> bool list) list" where
  "isnull df = map (\<lambda>(name, col). (name, map (\<lambda>c. c = NaN) col)) df"

text \<open>\<^verbatim>\<open>DataFrame.sum()\<close> on a Boolean frame: per column, the number of \<open>True\<close> cells.\<close>

definition sum_frame :: "(string \<times> bool list) list \<Rightarrow> (string \<times> int) list" where
  "sum_frame bf = map (\<lambda>(name, col). (name, sum_list (map (\<lambda>b. if b then 1 else 0) col))) bf"

text \<open>\<^verbatim>\<open>Series.sum()\<close>: the sum of the entries; 0 for the empty series.\<close>

definition sum_series :: "(string \<times> int) list \<Rightarrow> int" where
  "sum_series s = sum_list (map snd s)"

text \<open>Line 54 (line 34 of \<^verbatim>\<open>logcsvfile.py\<close>): \<^verbatim>\<open>df.isnull().sum().sum()\<close>.\<close>

definition count_missing :: "dataframe \<Rightarrow> int" where
  "count_missing df = sum_series (sum_frame (isnull df))"

subsection \<open>Exceptions, returned objects, the log, the clock\<close>

text \<open>
  An exception is an instance of \<^verbatim>\<open>Exception\<close>: its class name and the text that \<^verbatim>\<open>str(e)\<close>
  gives. These are the exceptions that the handler \<^verbatim>\<open>except Exception as e\<close> of both versions
  catches.
\<close>

datatype py_exception = PyException (exc_class: string) (exc_str: string)

text \<open>The Python objects that a function of these modules could hand back to its caller.\<close>

datatype pyobject = PyNone | PyScalar pyval | PyFrame dataframe

datatype level = INFO | WARNING | ERROR

text \<open>
  A log record as the root logger hands it to the file handler: the level, the formatted
  message, and the exception whose traceback is appended (\<^verbatim>\<open>logging.exception\<close> sets it).
  \<^verbatim>\<open>basicConfig(level=logging.INFO)\<close> lets all three levels through.
\<close>

record log_record =
  levelname :: level
  message :: string
  exc_info :: "py_exception option"

text \<open>
  What a run changes: the records appended to the log so far, and how many times the clock
  has been read.
\<close>

record world =
  ticks :: nat
  logged :: "log_record list"

text \<open>
  What a run is given from outside: the result of \<^verbatim>\<open>pd.read_csv\<close> at each path (a frame, or
  the exception it raises); which pandas is installed, as far as filling goes (the repository
  pins no version); the successive readings of \<^verbatim>\<open>time.time()\<close>; and float subtraction and
  \<^verbatim>\<open>%.2f\<close> formatting, which are not computed here. \<open>pandas_upcasts\<close> holds for pandas
  before 3, which turns a column into an object column when a value of another type is put
  into it, and fails for pandas 3, which raises \<^verbatim>\<open>TypeError\<close> instead.
\<close>

record 't env =
  read_csv :: "string \<Rightarrow> py_exception + dataframe"
  pandas_upcasts :: bool
  clock :: "nat \<Rightarrow> 't"
  fsub :: "'t \<Rightarrow> 't \<Rightarrow> 't"
  fmt_2f :: "'t \<Rightarrow> string"

definition emit :: "level \<Rightarrow> string \<Rightarrow> py_exception option \<Rightarrow> world \<Rightarrow> world" where
  "emit l m x w = w\<lparr>logged := logged w @ [\<lparr>levelname = l, message = m, exc_info = x\<rparr>]\<rparr>"

definition logging_info :: "string \<Rightarrow> world \<Rightarrow> world" where
  "logging_info m = emit INFO m None"

definition logging_warning :: "string \<Rightarrow> world \<Rightarrow> world" where
  "logging_warning m = emit WARNING m None"

definition logging_error :: "string \<Rightarrow> world \<Rightarrow> world" where
  "logging_error m = emit ERROR m None"

definition logging_exception :: "string \<Rightarrow> py_exception \<Rightarrow> world \<Rightarrow> world" where
  "logging_exception m e = emit ERROR m (Some e)"

definition time_time :: "'t env \<Rightarrow> world \<Rightarrow> 't \<times> world" where
  "time_time env w = (clock env (ticks w), w\<lparr>ticks := Suc (ticks w)\<rparr>)"

text \<open>The records a run appended: those of the world after it that the world before lacks.\<close>

definition emitted :: "world \<Rightarrow> world \<Rightarrow> log_record list" where
  "emitted w w' = drop (length (logged w)) (logged w')"

subsection \<open>Formatting\<close>

definition squote :: char where
  "squote = CHR 0x27"

definition digit_char :: "nat \<Rightarrow> char" where
  "digit_char d = ''0123456789'' ! d"

fun str_nat :: "nat \<Rightarrow> string" where
  "str_nat n = (if n < 10 then [digit_char n] else str_nat (n div 10) @ [digit_char (n mod 10)])"

declare str_nat.simps [simp del]

text \<open>\<^verbatim>\<open>%d\<close> and \<^verbatim>\<open>{...}\<close> of an integer: its decimal digits, after a minus sign when negative.\<close>

definition str_int :: "int \<Rightarrow> string" where
  "str_int i = (if i < 0 then CHR ''-'' # str_nat (nat (- i)) else str_nat (nat i))"

subsection \<open>Filling with pandas\<close>

text \<open>A missing cell becomes the value, every other cell is kept.\<close>

definition fill_cell :: "pyval \<Rightarrow> cell \<Rightarrow> cell" where
  "fill_cell v c = (case c of NaN \<Rightarrow> Val v | Val x \<Rightarrow> Val x)"

definition fill_all :: "pyval \<Rightarrow> dataframe \<Rightarrow> dataframe" where
  "fill_all v df = map (\<lambda>(name, col). (name, map (fill_cell v) col)) df"

text \<open>
  The dtype of a column is the one \<^verbatim>\<open>pd.read_csv\<close> gives it. A column whose present cells
  are all numbers, or that has no present cell, is a numeric column; when it holds a missing
  cell its dtype is float64, whatever the numbers are, since an int64 column holds none. A
  column with a present string or Boolean is a str, an object or a bool column.
\<close>

definition numeric :: "cell list \<Rightarrow> bool" where
  "numeric col =
     list_all (\<lambda>c. case c of
                   NaN \<Rightarrow> True
                 | Val (PyInt n) \<Rightarrow> True
                 | Val (PyFloat x) \<Rightarrow> True
                 | Val other \<Rightarrow> False) col"

text \<open>A frame refuses a str when one of its float64 columns holds a missing cell.\<close>

definition refuses_str :: "dataframe \<Rightarrow> bool" where
  "refuses_str df = list_ex (\<lambda>(name, col). numeric col \<and> NaN \<in> set col) df"

definition invalid_value :: "string \<Rightarrow> py_exception" where
  "invalid_value s = PyException ''TypeError''
     (''Invalid value '' @ [squote] @ s @ [squote] @ '' for dtype '' @ [squote] @ ''float64''
        @ [squote])"

text \<open>
  \<^verbatim>\<open>df.fillna(value, inplace=True)\<close> with a str \<open>value\<close>, which is what both versions pass.
  A str, an object, an int64 and a bool column take it, the last two having nothing to fill.
  A float64 column holding a missing cell does not: pandas before 3 makes an object column
  of it (with a warning) and fills it, pandas 3 raises \<^verbatim>\<open>TypeError\<close>. The frame is the local
  \<^verbatim>\<open>df\<close>, which nothing reads after a failed call, so its state then is not described.
\<close>

definition fillna :: "bool \<Rightarrow> string \<Rightarrow> dataframe \<Rightarrow> py_exception + dataframe" where
  "fillna upcasts s df =
     (if upcasts then Inr (fill_all (PyStr s) df)
      else if refuses_str df then Inl (invalid_value s)
      else Inr (fill_all (PyStr s) df))"

subsection \<open>\<^verbatim>\<open>process_csv\<close> of \<^verbatim>\<open>csv_log_processor.py\<close>\<close>

text \<open>Lines 56 and 57: the warning, only when the count is positive.\<close>

definition warn_if_missing :: "string \<Rightarrow> int \<Rightarrow> world \<Rightarrow> world" where
  "warn_if_missing file_path total_missing w =
     (if total_missing > 0
      then logging_warning (''File '' @ [squote] @ file_path @ [squote] @ '' contains ''
             @ str_int total_missing @ '' missing values'') w
      else w)"

text \<open>
  The values of the local variables when the \<^verbatim>\<open>try\<close> block ends normally. The function hands
  none of them back.
\<close>

record 't run_locals =
  df :: dataframe
  missing :: int
  elapsed :: 't

text \<open>
  Lines 47 to 63, the \<^verbatim>\<open>try\<close> block: \<open>Inl e\<close> when a statement raises \<open>e\<close>, which loading at
  line 51 and filling at line 60 can do.
\<close>

definition process_csv_try :: "'t env \<Rightarrow> string \<Rightarrow> world \<Rightarrow> (py_exception + 't run_locals) \<times> world" where
  "process_csv_try env file_path w0 =
     (let w1 = logging_info (''Starting processing for file: '' @ file_path) w0;
          (start_time, w2) = time_time env w1
      in case read_csv env file_path of
           Inl e \<Rightarrow> (Inl e, w2)
         | Inr df0 \<Rightarrow>
             (let total_missing = count_missing df0;
                  w3 = warn_if_missing file_path total_missing w2
              in case fillna (pandas_upcasts env) ''UNKNOWN'' df0 of
                   Inl e \<Rightarrow> (Inl e, w3)
                 | Inr df1 \<Rightarrow>
                     (let (end_time, w4) = time_time env w3;
                          elapsed = fsub env end_time start_time;
                          w5 = logging_info (''Processing completed in ''
                                 @ fmt_2f env elapsed @ '' seconds'') w4
                      in (Inr \<lparr>df = df1, missing = total_missing, elapsed = elapsed\<rparr>, w5))))"

text \<open>
  Lines 46 to 66: the \<^verbatim>\<open>try\<close> block with its handler. Either way the function then falls off
  its end, which returns \<^verbatim>\<open>None\<close>.
\<close>

definition process_csv :: "'t env \<Rightarrow> string \<Rightarrow> world \<Rightarrow> (py_exception + pyobject) \<times> world" where
  "process_csv env file_path w =
     (case process_csv_try env file_path w of
        (Inr locals, w') \<Rightarrow> (Inr PyNone, w')
      | (Inl e, w') \<Rightarrow>
          (Inr PyNone,
           logging_exception (''Failed to process file '' @ [squote] @ file_path @ [squote]
             @ '': '' @ exc_str e) e w'))"

subsection \<open>\<^verbatim>\<open>process_csv\<close> of \<^verbatim>\<open>logcsvfile.py\<close>\<close>

text \<open>Lines 48 and 49.\<close>

definition logcsvfile_warn_if_missing :: "string \<Rightarrow> int \<Rightarrow> world \<Rightarrow> world" where
  "logcsvfile_warn_if_missing file_path missing_values w =
     (if missing_values > 0
      then logging_warning (''File '' @ file_path @ '' contains '' @ str_int missing_values
             @ '' missing values'') w
      else w)"

text \<open>Lines 27 to 67: loading at line 31 and filling at line 52 can raise.\<close>

definition logcsvfile_process_csv_try ::
  "'t env \<Rightarrow> string \<Rightarrow> world \<Rightarrow> (py_exception + 't run_locals) \<times> world" where
  "logcsvfile_process_csv_try env file_path w0 =
     (let w1 = logging_info (''Starting processing for '' @ file_path) w0;
          (start_time, w2) = time_time env w1
      in case read_csv env file_path of
           Inl e \<Rightarrow> (Inl e, w2)
         | Inr df0 \<Rightarrow>
             (let missing_values = count_missing df0;
                  w3 = logcsvfile_warn_if_missing file_path missing_values w2
              in case fillna (pandas_upcasts env) ''UNKNOWN'' df0 of
                   Inl e \<Rightarrow> (Inl e, w3)
                 | Inr df1 \<Rightarrow>
                     (let (end_time, w4) = time_time env w3;
                          w5 = logging_info (''Processing completed in ''
                                 @ fmt_2f env (fsub env end_time start_time) @ '' seconds'') w4
                      in (Inr \<lparr>df = df1, missing = missing_values,
                               elapsed = fsub env end_time start_time\<rparr>, w5))))"

text \<open>Lines 26 to 70.\<close>

definition logcsvfile_process_csv ::
  "'t env \<Rightarrow> string \<Rightarrow> world \<Rightarrow> (py_exception + pyobject) \<times> world" where
  "logcsvfile_process_csv env file_path w =
     (case logcsvfile_process_csv_try env file_path w of
        (Inr locals, w') \<Rightarrow> (Inr PyNone, w')
      | (Inl e, w') \<Rightarrow>
          (Inr PyNone,
           logging_error (''Error processing '' @ file_path @ '': '' @ exc_str e) w'))"

subsection \<open>What \<^verbatim>\<open>pd.read_csv\<close> does with the rows of a file\<close>

text \<open>
  \<^verbatim>\<open>pd.read_csv(file_path)\<close> is called with its defaults. Its handling of the shape of the
  rows is that of the tokenizer of pandas: a line that is empty or holds only spaces and tabs
  is skipped; the first line kept is the header; the first data line may have any number of
  fields, and when it has more than the header its extra leading fields become the index of
  the frame, which belongs to none of its columns; a line with fewer fields than the line
  before it gets empty fields appended; a line after the first data line with more fields
  than the line before it is a bad line, which raises \<^verbatim>\<open>ParserError\<close>; an empty field, or one
  of the other tokens of \<open>na_values\<close>, becomes a missing cell. A file is given as its lines,
  each split into its fields, the texts between its commas; quoting is not described. The
  type that pandas infers for the present fields of a column, and the labels it gives the
  columns (those of the header, an empty or a repeated one renamed), are parameters.
\<close>

definition na_values :: "string list" where
  "na_values =
     ['''', ''#N/A'', ''#N/A N/A'', ''#NA'', ''-1.#IND'', ''-1.#QNAN'', ''-NaN'', ''-nan'',
      ''1.#IND'', ''1.#QNAN'', ''<NA>'', ''N/A'', ''NA'', ''NULL'', ''NaN'', ''None'', ''n/a'',
      ''nan'', ''null'']"

type_synonym dtype_inference = "string list \<Rightarrow> string \<Rightarrow> pyval"

definition convert_column :: "dtype_inference \<Rightarrow> string list \<Rightarrow> cell list" where
  "convert_column infer tokens =
     map (\<lambda>t. if t \<in> set na_values then NaN else Val (infer tokens t)) tokens"

definition parser_error :: "nat \<Rightarrow> nat \<Rightarrow> nat \<Rightarrow> py_exception" where
  "parser_error expected line_no saw = PyException ''ParserError''
     (''Error tokenizing data. C error: Expected '' @ str_nat expected @ '' fields in line ''
        @ str_nat line_no @ '', saw '' @ str_nat saw @ [CHR 0x0A])"

text \<open>
  A line the tokenizer skips: one with no character, or with spaces and tabs only. Such a line
  has no comma, so it is \<open>[]\<close> or a single field.
\<close>

definition blank_line :: "string list \<Rightarrow> bool" where
  "blank_line cells =
     (case cells of
        [] \<Rightarrow> True
      | [c] \<Rightarrow> list_all (\<lambda>x. x = CHR 0x20 \<or> x = CHR 0x09) c
      | c # others \<Rightarrow> False)"

text \<open>The data lines, each with its line number in the file, against the expected width.\<close>

fun end_lines :: "nat \<Rightarrow> (nat \<times> string list) list \<Rightarrow> py_exception + string list list" where
  "end_lines expected [] = Inr []"
| "end_lines expected ((line_no, cells) # rest) =
     (if expected < length cells then Inl (parser_error expected line_no (length cells))
      else case end_lines expected rest of
             Inl e \<Rightarrow> Inl e
           | Inr rows \<Rightarrow> Inr ((cells @ replicate (expected - length cells) '''') # rows))"

definition kept_line :: "nat \<times> string list \<Rightarrow> bool" where
  "kept_line numbered = (\<not> blank_line (snd numbered))"

text \<open>
  The width of the table: the number of fields of the header, or of the first data line when
  that has more.
\<close>

definition table_width :: "nat \<Rightarrow> string list list \<Rightarrow> nat" where
  "table_width n data_lines =
     (case data_lines of [] \<Rightarrow> n | first # _ \<Rightarrow> max n (length first))"

type_synonym label_rule = "string list \<Rightarrow> nat \<Rightarrow> string"

definition pandas_read_csv ::
  "dtype_inference \<Rightarrow> label_rule \<Rightarrow> string list list \<Rightarrow> py_exception + dataframe" where
  "pandas_read_csv infer labels file_lines =
     (case filter kept_line (zip [1..<Suc (length file_lines)] file_lines) of
        [] \<Rightarrow> Inl (PyException ''EmptyDataError'' ''No columns to parse from file'')
      | (_, header) # body \<Rightarrow>
          (let width = table_width (length header) (map snd body);
               leading_cols = width - length header
           in case end_lines width body of
                Inl e \<Rightarrow> Inl e
              | Inr rows \<Rightarrow>
                  Inr (map (\<lambda>j. (labels header j,
                                  convert_column infer (map (\<lambda>row. row ! (leading_cols + j)) rows)))
                         [0..<length header])))"

subsection \<open>Example runs\<close>

text \<open>
  \<^verbatim>\<open>str(e)\<close> of the \<^verbatim>\<open>FileNotFoundError\<close> that opening a missing file raises ends with the
  \<^verbatim>\<open>repr\<close> of the name. \<open>py_repr\<close> is that \<^verbatim>\<open>repr\<close> for ASCII text: double quotes when the
  text has a single quote and no double quote, single quotes otherwise; the backslash, the
  enclosing quote and the control characters escaped.
\<close>

definition dquote :: char where
  "dquote = CHR 0x22"

definition backslash :: char where
  "backslash = CHR 0x5C"

definition hex_digit :: "nat \<Rightarrow> char" where
  "hex_digit d = ''0123456789abcdef'' ! d"

definition repr_char :: "char \<Rightarrow> char \<Rightarrow> string" where
  "repr_char quote c =
     (if c = backslash then [backslash, backslash]
      else if c = quote then [backslash, quote]
      else if c = CHR 0x09 then [backslash, CHR ''t'']
      else if c = CHR 0x0A then [backslash, CHR ''n'']
      else if c = CHR 0x0D then [backslash, CHR ''r'']
      else if (of_char c :: nat) < 32 then
        [backslash, CHR ''x'', hex_digit (of_char c div 16), hex_digit (of_char c mod 16)]
      else if c = CHR 0x7F then [backslash, CHR ''x'', CHR ''7'', CHR ''f'']
      else [c])"

definition py_repr :: "string \<Rightarrow> string" where
  "py_repr s =
     (let quote = (if squote \<in> set s \<and> dquote \<notin> set s then dquote else squote)
      in [quote] @ concat (map (repr_char quote) s) @ [quote])"

definition file_not_found :: "string \<Rightarrow> py_exception" where
  "file_not_found path = PyException ''FileNotFoundError''
     (''[Errno 2] No such file or directory: '' @ py_repr path)"

definition staff_frame :: dataframe where
  "staff_frame =
     [(''ID'', [Val (PyInt 1), Val (PyInt 2), Val (PyInt 3)]),
      (''Name'', [Val (PyStr ''User_1''), Val (PyStr ''User_2''), Val (PyStr ''User_3'')]),
      (''Department'', [Val (PyStr ''HR''), NaN, NaN])]"

definition other_staff_frame :: dataframe where
  "other_staff_frame =
     [(''ID'', [Val (PyInt 1), Val (PyInt 2), Val (PyInt 3)]),
      (''Name'', [Val (PyStr ''User_1''), Val (PyStr ''User_2''), Val (PyStr ''User_3'')]),
      (''Department'', [NaN, Val (PyStr ''IT''), NaN])]"

text \<open>
  The frame that \<^verbatim>\<open>pd.read_csv\<close> makes of the four lines \<^verbatim>\<open>ID,Age\<close>, \<^verbatim>\<open>1,30\<close>, \<^verbatim>\<open>2,\<close>, \<^verbatim>\<open>3,41\<close>:
  the ages are read as floats, the second is missing.
\<close>

definition ages_frame :: dataframe where
  "ages_frame =
     [(''ID'', [Val (PyInt 1), Val (PyInt 2), Val (PyInt 3)]),
      (''Age'', [Val (PyFloat ''30.0''), NaN, Val (PyFloat ''41.0'')])]"

text \<open>
  A clock in whole seconds, and a file system holding the one file \<^verbatim>\<open>data.csv\<close>, under
  pandas 3 and under an earlier pandas.
\<close>

definition env_with :: "dataframe \<Rightarrow> int env" where
  "env_with d =
     \<lparr>read_csv = (\<lambda>path. if path = ''data.csv'' then Inr d else Inl (file_not_found path)),
      pandas_upcasts = False,
      clock = (\<lambda>k. 1700000000 + 3 * int k),
      fsub = (\<lambda>a b. a - b),
      fmt_2f = (\<lambda>t. str_int t @ ''.00'')\<rparr>"

definition earlier_env_with :: "dataframe \<Rightarrow> int env" where
  "earlier_env_with d = (env_with d)\<lparr>pandas_upcasts := True\<rparr>"

definition world0 :: world where
  "world0 = \<lparr>ticks = 0, logged = []\<rparr>"

text \<open>
  A file whose second data line lacks its last field, and one whose second data line has a
  field too many. Their present fields are text, which pandas keeps as strings; their labels
  are distinct and not empty, which pandas keeps as they are. A third file has an empty line,
  and a first data line with a field more than the header.
\<close>

definition text_columns :: dtype_inference where
  "text_columns tokens t = PyStr t"

definition as_given :: label_rule where
  "as_given header j = header ! j"

definition short_row_lines :: "string list list" where
  "short_row_lines = [[''Name'', ''Department''], [''Alice'', ''HR''], [''Bob'']]"

definition short_row_frame :: dataframe where
  "short_row_frame =
     [(''Name'', [Val (PyStr ''Alice''), Val (PyStr ''Bob'')]),
      (''Department'', [Val (PyStr ''HR''), NaN])]"

definition long_row_lines :: "string list list" where
  "long_row_lines = [[''Name'', ''Department''], [''Alice'', ''HR''], [''Bob'', ''IT'', ''Leeds'']]"

definition indexed_lines :: "string list list" where
  "indexed_lines =
     [[''Name'', ''Department''], [], [''7'', ''Alice'', ''HR''], [''8'', ''Bob''],
      [''9'', ''Carol'', ''IT'', ''Leeds'']]"

section \<open>Counting the missing cells\<close>

lemma count_missing_filter:
  "count_missing frame = (\<Sum>col\<leftarrow>map snd frame. int (length (filter (\<lambda>c. c = NaN) col)))"
proof -
  have one: "sum_list (map (\<lambda>b. if b then 1 else 0) (map (\<lambda>c. c = NaN) col))
      = int (length (filter (\<lambda>c. c = NaN) col))" for col :: "cell list"
    by (induction col) auto
  show ?thesis
    unfolding count_missing_def sum_series_def sum_frame_def isnull_def
    by (induction frame) (auto simp: one [unfolded map_map])
qed

lemma sum_list_nth_columns:
  "(\<Sum>col\<leftarrow>cols. int (f col)) = int (\<Sum>j<length cols. f (cols ! j))"
proof -
  have "(\<Sum>col\<leftarrow>cols. int (f col)) = (\<Sum>j = 0..<length cols. int (f (cols ! j)))"
    by (simp add: sum_list_sum_nth)
  also have "\<dots> = int (\<Sum>j<length cols. f (cols ! j))"
    by (simp add: lessThan_atLeast0)
  finally show ?thesis .
qed

lemma card_missing_positions:
  "card {(j, i). j < length cols \<and> i < length (cols ! j) \<and> cols ! j ! i = NaN}
     = (\<Sum>j<length cols. length (filter (\<lambda>c. c = NaN) (cols ! j)))"
proof -
  have "{(j, i). j < length cols \<and> i < length (cols ! j) \<and> cols ! j ! i = NaN}
      = (SIGMA j:{..<length cols}. {i. i < length (cols ! j) \<and> cols ! j ! i = NaN})"
    by auto
  then show ?thesis
    by (simp add: length_filter_conv_card)
qed

text \<open>
  C3. The count computed by \<^verbatim>\<open>df.isnull().sum().sum()\<close> is the number of positions (column
  \<open>j\<close>, record \<open>i\<close>) of the frame whose cell is missing, and it is 0 for a frame with zero
  records, whatever its columns.
\<close>

theorem count_missing_exact:
  "count_missing frame
     = int (card {(j, i). j < length frame \<and> i < length (snd (frame ! j)) \<and> snd (frame ! j) ! i = NaN})
   \<and> count_missing (map (\<lambda>name. (name, [])) names) = 0"
proof
  have "count_missing frame
      = int (\<Sum>j<length (map snd frame). length (filter (\<lambda>c. c = NaN) (map snd frame ! j)))"
    unfolding count_missing_filter by (rule sum_list_nth_columns)
  also have "\<dots> = int (card {(j, i). j < length (map snd frame) \<and> i < length (map snd frame ! j)
      \<and> map snd frame ! j ! i = NaN})"
    by (simp only: card_missing_positions)
  also have "{(j, i). j < length (map snd frame) \<and> i < length (map snd frame ! j)
      \<and> map snd frame ! j ! i = NaN}
      = {(j, i). j < length frame \<and> i < length (snd (frame ! j)) \<and> snd (frame ! j) ! i = NaN}"
    by auto
  finally show "count_missing frame
     = int (card {(j, i). j < length frame \<and> i < length (snd (frame ! j)) \<and> snd (frame ! j) ! i = NaN})" .
next
  show "count_missing (map (\<lambda>name. (name, [])) names) = 0"
    by (simp add: count_missing_filter comp_def)
qed

section \<open>Filling the missing cells\<close>

lemma fill_cell_simps [simp]:
  "fill_cell s NaN = Val s" "fill_cell s (Val x) = Val x"
  by (simp_all add: fill_cell_def)

lemma fill_cell_not_NaN [simp]: "fill_cell s c \<noteq> NaN" "NaN \<noteq> fill_cell s c"
  by (cases c; simp)+

lemma fill_cell_idem [simp]: "fill_cell s (fill_cell s c) = fill_cell s c"
  by (cases c) simp_all

lemma fill_all_nth:
  "j < length frame \<Longrightarrow>
     fill_all v frame ! j = (fst (frame ! j), map (fill_cell v) (snd (frame ! j)))"
  by (simp add: fill_all_def case_prod_beta)

lemma fill_all_no_NaN: "NaN \<notin> set (concat (map snd (fill_all v frame)))"
  by (auto simp: fill_all_def)

lemma fill_all_idem: "fill_all v (fill_all v frame) = fill_all v frame"
  by (simp add: fill_all_def case_prod_beta)

lemma count_missing_fill_all: "count_missing (fill_all v frame) = 0"
proof -
  have "filter (\<lambda>c. c = NaN) (map (fill_cell v) col) = []" for col
    by (induction col) simp_all
  then show ?thesis
    by (simp add: count_missing_filter fill_all_def comp_def case_prod_beta)
qed

lemma filled_frame_accepts: "\<not> refuses_str (fill_all v frame)"
  by (auto simp: refuses_str_def fill_all_def list_ex_iff)

lemma fillna_Inr_iff:
  "fillna up s frame = Inr filled
     \<longleftrightarrow> (up \<or> \<not> refuses_str frame) \<and> filled = fill_all (PyStr s) frame"
  by (auto simp: fillna_def)

lemma fillna_Inl_iff:
  "fillna up s frame = Inl e \<longleftrightarrow> \<not> up \<and> refuses_str frame \<and> e = invalid_value s"
  by (auto simp: fillna_def)

lemma refusing_frame_has_missing: "refuses_str frame \<Longrightarrow> 0 < count_missing frame"
proof -
  assume "refuses_str frame"
  then obtain name col where col: "(name, col) \<in> set frame" "NaN \<in> set col"
    by (auto simp: refuses_str_def list_ex_iff)
  have nonneg: "0 \<le> (\<Sum>c\<leftarrow>cols. int (length (filter (\<lambda>c. c = NaN) c)))" for cols :: "cell list list"
    by (induction cols) simp_all
  have pos: "0 < int (length (filter (\<lambda>c. c = NaN) col))"
    using col(2) by (simp add: filter_empty_conv)
  have "col \<in> set (map snd frame)"
    using col(1) by force
  then obtain before after where "map snd frame = before @ col # after"
    by (auto simp: in_set_conv_decomp)
  then have "count_missing frame
      = (\<Sum>c\<leftarrow>before. int (length (filter (\<lambda>c. c = NaN) c)))
        + (int (length (filter (\<lambda>c. c = NaN) col))
        + (\<Sum>c\<leftarrow>after. int (length (filter (\<lambda>c. c = NaN) c))))"
    by (simp add: count_missing_filter)
  with pos nonneg [of before] nonneg [of after] show ?thesis
    by linarith
qed

lemma ages_frame_refuses: "refuses_str ages_frame"
  by (simp add: refuses_str_def ages_frame_def numeric_def)

lemma staff_frame_accepts:
  "\<not> refuses_str staff_frame" "\<not> refuses_str other_staff_frame" "\<not> refuses_str short_row_frame"
  by (simp_all add: refuses_str_def staff_frame_def other_staff_frame_def short_row_frame_def
      numeric_def)

lemma count_missing_ages: "count_missing ages_frame = 1"
  by (simp add: count_missing_filter ages_frame_def)

text \<open>
  When \<^verbatim>\<open>fillna\<close> returns, the frame it leaves has no missing cell: a position whose cell was
  missing holds the value, and a position whose cell was present holds the same cell.
\<close>

lemma filled_frame_cells:
  assumes "fillna up s frame = Inr filled"
  shows "NaN \<notin> set (concat (map snd filled))"
    and "j < length frame \<Longrightarrow> i < length (snd (frame ! j)) \<Longrightarrow> snd (frame ! j) ! i = NaN \<Longrightarrow>
           snd (filled ! j) ! i = Val (PyStr s)"
    and "j < length frame \<Longrightarrow> i < length (snd (frame ! j)) \<Longrightarrow> snd (frame ! j) ! i \<noteq> NaN \<Longrightarrow>
           snd (filled ! j) ! i = snd (frame ! j) ! i"
proof -
  have filled: "filled = fill_all (PyStr s) frame"
    using assms by (simp add: fillna_Inr_iff)
  show "NaN \<notin> set (concat (map snd filled))"
    unfolding filled by (rule fill_all_no_NaN)
  show "snd (filled ! j) ! i = Val (PyStr s)"
    if "j < length frame" "i < length (snd (frame ! j))" "snd (frame ! j) ! i = NaN"
    using that by (simp add: filled fill_all_nth)
  show "snd (filled ! j) ! i = snd (frame ! j) ! i"
    if "j < length frame" "i < length (snd (frame ! j))" "snd (frame ! j) ! i \<noteq> NaN"
    using that by (cases "snd (frame ! j) ! i") (simp_all add: filled fill_all_nth)
qed

text \<open>Filling again does what the first filling did, whether that returned or raised.\<close>

lemma fillna_twice:
  "(case fillna up s frame of Inl e \<Rightarrow> Inl e | Inr filled \<Rightarrow> fillna up s filled)
     = fillna up s frame"
  by (simp add: fillna_def filled_frame_accepts fill_all_idem)


lemma nrows_fill_all: "nrows (fill_all v frame) = nrows frame"
  by (cases frame) (auto simp: nrows_def fill_all_def)

lemma record_at_fill_all:
  assumes "frame_ok frame" "i < nrows frame"
  shows "record_at (fill_all v frame) i
    = map (\<lambda>(name, c). (name, fill_cell v c)) (record_at frame i)"
proof -
  have "length col = nrows frame" if "(name, col) \<in> set frame" for name col
    using assms(1) that by (auto simp: frame_ok_def list_all_iff)
  with assms(2) show ?thesis
    by (auto simp: record_at_def fill_all_def)
qed

text \<open>
  C9. Filling keeps the shape of the frame. It returns a frame for every frame under a pandas
  that upcasts, and under pandas 3 for every frame that does not refuse the str; the frame it
  returns has the column labels of the input in their order, columns of the same lengths, the
  same number of records, and the records of the input in their order, each with its missing
  cells filled.
\<close>

theorem fillna_preserves_shape:
  "(up \<or> \<not> refuses_str frame \<longrightarrow> fillna up s frame = Inr (fill_all (PyStr s) frame))
   \<and> (fillna up s frame = Inr filled \<longrightarrow>
        map fst filled = map fst frame
      \<and> map (length \<circ> snd) filled = map (length \<circ> snd) frame
      \<and> nrows filled = nrows frame
      \<and> (frame_ok frame \<longrightarrow>
           records filled
             = map (map (\<lambda>(name, c). (name, fill_cell (PyStr s) c))) (records frame)))"
proof (intro conjI impI)
  assume "up \<or> \<not> refuses_str frame"
  then show "fillna up s frame = Inr (fill_all (PyStr s) frame)"
    by (simp add: fillna_Inr_iff)
next
  assume "fillna up s frame = Inr filled"
  then have filled: "filled = fill_all (PyStr s) frame"
    by (simp add: fillna_Inr_iff)
  show "map fst filled = map fst frame"
    by (simp add: filled fill_all_def case_prod_beta comp_def)
  show "map (length \<circ> snd) filled = map (length \<circ> snd) frame"
    by (simp add: filled fill_all_def case_prod_beta comp_def)
  show "nrows filled = nrows frame"
    by (simp add: filled nrows_fill_all)
  assume "frame_ok frame"
  then show "records filled
      = map (map (\<lambda>(name, c). (name, fill_cell (PyStr s) c))) (records frame)"
    by (simp add: filled records_def nrows_fill_all record_at_fill_all)
qed

lemma upt3: "[0..<3] = [0, 1, 2]"
  by (simp add: upt_rec)

theorem fillna_preserves_shape_witness:
  "\<not> refuses_str staff_frame
   \<and> fillna False ''UNKNOWN'' staff_frame = Inr (fill_all (PyStr ''UNKNOWN'') staff_frame)
   \<and> map fst (fill_all (PyStr ''UNKNOWN'') staff_frame) = [''ID'', ''Name'', ''Department'']
   \<and> frame_ok staff_frame
   \<and> records (fill_all (PyStr ''UNKNOWN'') staff_frame)
       = [[(''ID'', Val (PyInt 1)), (''Name'', Val (PyStr ''User_1'')),
           (''Department'', Val (PyStr ''HR''))],
          [(''ID'', Val (PyInt 2)), (''Name'', Val (PyStr ''User_2'')),
           (''Department'', Val (PyStr ''UNKNOWN''))],
          [(''ID'', Val (PyInt 3)), (''Name'', Val (PyStr ''User_3'')),
           (''Department'', Val (PyStr ''UNKNOWN''))]]"
  using fillna_preserves_shape [of False staff_frame "''UNKNOWN''"
      "fill_all (PyStr ''UNKNOWN'') staff_frame"]
  by (simp add: staff_frame_accepts)
    (simp add: staff_frame_def frame_ok_def nrows_def records_def record_at_def upt3
      fill_all_def)

section \<open>The warning\<close>

lemma logged_emit [simp]:
  "logged (emit l m x w) = logged w @ [\<lparr>levelname = l, message = m, exc_info = x\<rparr>]"
  "ticks (emit l m x w) = ticks w"
  by (simp_all add: emit_def)

lemma emitted_append [simp]: "emitted w (w'\<lparr>logged := logged w @ rs\<rparr>) = rs"
  by (simp add: emitted_def)

lemma emitted_self [simp]: "emitted w w = []"
  by (simp add: emitted_def)

lemma sublist_after: "sublist xs (a @ xs @ b)"
  by (rule sublist_appendI)

lemma sublist_after1: "sublist xs (a @ b @ xs @ c)"
  using sublist_appendI [of xs "a @ b" c] by simp

lemma sublist_after5: "sublist xs (a @ b @ c @ d @ e @ xs @ f)"
  using sublist_appendI [of xs "a @ b @ c @ d @ e" f] by simp

lemma warn_if_missing_eq:
  "warn_if_missing p n w = w\<lparr>logged := logged w @
     (if 0 < n
      then [\<lparr>levelname = WARNING,
             message = ''File '' @ [squote] @ p @ [squote] @ '' contains '' @ str_int n
               @ '' missing values'',
             exc_info = None\<rparr>]
      else [])\<rparr>"
  by (simp add: warn_if_missing_def logging_warning_def emit_def)

lemma logcsvfile_warn_if_missing_eq:
  "logcsvfile_warn_if_missing p n w = w\<lparr>logged := logged w @
     (if 0 < n
      then [\<lparr>levelname = WARNING,
             message = ''File '' @ p @ '' contains '' @ str_int n @ '' missing values'',
             exc_info = None\<rparr>]
      else [])\<rparr>"
  by (simp add: logcsvfile_warn_if_missing_def logging_warning_def emit_def)

lemma warn_if_missing_positive:
  "0 < n \<Longrightarrow> warn_if_missing p n w = w\<lparr>logged := logged w @
     [\<lparr>levelname = WARNING,
       message = ''File '' @ [squote] @ p @ [squote] @ '' contains '' @ str_int n
         @ '' missing values'',
       exc_info = None\<rparr>]\<rparr>"
  by (simp add: warn_if_missing_eq)

lemma logcsvfile_warn_if_missing_positive:
  "0 < n \<Longrightarrow> logcsvfile_warn_if_missing p n w = w\<lparr>logged := logged w @
     [\<lparr>levelname = WARNING,
       message = ''File '' @ p @ '' contains '' @ str_int n @ '' missing values'',
       exc_info = None\<rparr>]\<rparr>"
  by (simp add: logcsvfile_warn_if_missing_eq)

lemma warn_if_missing_none:
  "\<not> 0 < n \<Longrightarrow> warn_if_missing p n w = w"
  "\<not> 0 < n \<Longrightarrow> logcsvfile_warn_if_missing p n w = w"
  by (simp_all add: warn_if_missing_def logcsvfile_warn_if_missing_def)

lemma str_int_2: "str_int 2 = ''2''"
  by (simp add: str_int_def str_nat.simps digit_char_def)

text \<open>
  C5. With a positive count, lines 56 and 57 (48 and 49 of \<^verbatim>\<open>logcsvfile.py\<close>) append exactly
  one record, of level WARNING, whose message contains the path and the decimal digits of the
  count; with the count 0 they leave the log as it is; in no case do they append more than one
  record.
\<close>

theorem warning_iff_missing:
  "(0 < n \<longrightarrow>
      map levelname (emitted w (warn_if_missing p n w)) = [WARNING]
    \<and> sublist p (message (hd (emitted w (warn_if_missing p n w))))
    \<and> sublist (str_int n) (message (hd (emitted w (warn_if_missing p n w))))
    \<and> map levelname (emitted w (logcsvfile_warn_if_missing p n w)) = [WARNING]
    \<and> sublist p (message (hd (emitted w (logcsvfile_warn_if_missing p n w))))
    \<and> sublist (str_int n) (message (hd (emitted w (logcsvfile_warn_if_missing p n w)))))
   \<and> (n = 0 \<longrightarrow> warn_if_missing p n w = w \<and> logcsvfile_warn_if_missing p n w = w)
   \<and> length (emitted w (warn_if_missing p n w)) \<le> 1
   \<and> length (emitted w (logcsvfile_warn_if_missing p n w)) \<le> 1"
proof (intro conjI impI)
  assume pos: "0 < n"
  show "map levelname (emitted w (warn_if_missing p n w)) = [WARNING]"
    by (simp add: warn_if_missing_positive [OF pos])
  show "sublist p (message (hd (emitted w (warn_if_missing p n w))))"
    by (simp only: warn_if_missing_positive [OF pos] emitted_append list.sel
        log_record.select_convs sublist_after1)
  show "sublist (str_int n) (message (hd (emitted w (warn_if_missing p n w))))"
    by (simp only: warn_if_missing_positive [OF pos] emitted_append list.sel
        log_record.select_convs sublist_after5)
  show "map levelname (emitted w (logcsvfile_warn_if_missing p n w)) = [WARNING]"
    by (simp add: logcsvfile_warn_if_missing_positive [OF pos])
  show "sublist p (message (hd (emitted w (logcsvfile_warn_if_missing p n w))))"
    by (simp only: logcsvfile_warn_if_missing_positive [OF pos] emitted_append list.sel
        log_record.select_convs sublist_after)
  show "sublist (str_int n) (message (hd (emitted w (logcsvfile_warn_if_missing p n w))))"
    using sublist_appendI [of "str_int n" "''File '' @ p @ '' contains ''" "'' missing values''"]
    by (simp add: logcsvfile_warn_if_missing_positive [OF pos])
next
  assume "n = 0"
  then show "warn_if_missing p n w = w" "logcsvfile_warn_if_missing p n w = w"
    by (simp_all add: warn_if_missing_none)
next
  show "length (emitted w (warn_if_missing p n w)) \<le> 1"
    by (cases "0 < n") (simp_all add: warn_if_missing_positive warn_if_missing_none)
  show "length (emitted w (logcsvfile_warn_if_missing p n w)) \<le> 1"
    by (cases "0 < n") (simp_all add: logcsvfile_warn_if_missing_positive warn_if_missing_none)
qed

theorem warning_iff_missing_witness:
  "(0::int) < 2
   \<and> emitted world0 (warn_if_missing ''data.csv'' 2 world0)
       = [\<lparr>levelname = WARNING,
           message = ''File '' @ [squote] @ ''data.csv'' @ [squote] @ '' contains 2 missing values'',
           exc_info = None\<rparr>]
   \<and> sublist ''data.csv'' (message (hd (emitted world0 (warn_if_missing ''data.csv'' 2 world0))))
   \<and> sublist (str_int 2) (message (hd (emitted world0 (warn_if_missing ''data.csv'' 2 world0))))
   \<and> warn_if_missing ''data.csv'' 0 world0 = world0"
  using warning_iff_missing [of 2 world0 "''data.csv''"]
    warning_iff_missing [of 0 world0 "''data.csv''"]
  by (simp add: warn_if_missing_positive warn_if_missing_none emitted_def str_int_2 world0_def)

section \<open>The runs of \<^verbatim>\<open>process_csv\<close>\<close>

lemma process_csv_try_raises:
  assumes "read_csv env p = Inl e"
  shows "process_csv_try env p w =
    (Inl e, w\<lparr>ticks := Suc (ticks w), logged := logged w @
       [\<lparr>levelname = INFO, message = ''Starting processing for file: '' @ p, exc_info = None\<rparr>]\<rparr>)"
  using assms by (simp add: process_csv_try_def time_time_def logging_info_def emit_def)

lemma logcsvfile_process_csv_try_raises:
  assumes "read_csv env p = Inl e"
  shows "logcsvfile_process_csv_try env p w =
    (Inl e, w\<lparr>ticks := Suc (ticks w), logged := logged w @
       [\<lparr>levelname = INFO, message = ''Starting processing for '' @ p, exc_info = None\<rparr>]\<rparr>)"
  using assms by (simp add: logcsvfile_process_csv_try_def time_time_def logging_info_def emit_def)

lemma process_csv_try_fill_raises:
  assumes "read_csv env p = Inr d" and "fillna (pandas_upcasts env) ''UNKNOWN'' d = Inl e"
  shows "process_csv_try env p w =
    (Inl e, w\<lparr>ticks := Suc (ticks w), logged := logged w @
       [\<lparr>levelname = INFO, message = ''Starting processing for file: '' @ p, exc_info = None\<rparr>]
       @ (if 0 < count_missing d
          then [\<lparr>levelname = WARNING,
                 message = ''File '' @ [squote] @ p @ [squote] @ '' contains ''
                   @ str_int (count_missing d) @ '' missing values'',
                 exc_info = None\<rparr>]
          else [])\<rparr>)"
  using assms
  by (simp add: process_csv_try_def Let_def time_time_def logging_info_def emit_def
      warn_if_missing_eq)

lemma logcsvfile_process_csv_try_fill_raises:
  assumes "read_csv env p = Inr d" and "fillna (pandas_upcasts env) ''UNKNOWN'' d = Inl e"
  shows "logcsvfile_process_csv_try env p w =
    (Inl e, w\<lparr>ticks := Suc (ticks w), logged := logged w @
       [\<lparr>levelname = INFO, message = ''Starting processing for '' @ p, exc_info = None\<rparr>]
       @ (if 0 < count_missing d
          then [\<lparr>levelname = WARNING,
                 message = ''File '' @ p @ '' contains '' @ str_int (count_missing d)
                   @ '' missing values'',
                 exc_info = None\<rparr>]
          else [])\<rparr>)"
  using assms
  by (simp add: logcsvfile_process_csv_try_def Let_def time_time_def logging_info_def emit_def
      logcsvfile_warn_if_missing_eq)

lemma process_csv_try_completes:
  assumes "read_csv env p = Inr d" and "fillna (pandas_upcasts env) ''UNKNOWN'' d = Inr filled"
  shows "process_csv_try env p w =
    (Inr \<lparr>df = filled, missing = count_missing d,
          elapsed = fsub env (clock env (Suc (ticks w))) (clock env (ticks w))\<rparr>,
     w\<lparr>ticks := Suc (Suc (ticks w)), logged := logged w @
       [\<lparr>levelname = INFO, message = ''Starting processing for file: '' @ p, exc_info = None\<rparr>]
       @ (if 0 < count_missing d
          then [\<lparr>levelname = WARNING,
                 message = ''File '' @ [squote] @ p @ [squote] @ '' contains ''
                   @ str_int (count_missing d) @ '' missing values'',
                 exc_info = None\<rparr>]
          else [])
       @ [\<lparr>levelname = INFO,
            message = ''Processing completed in ''
              @ fmt_2f env (fsub env (clock env (Suc (ticks w))) (clock env (ticks w)))
              @ '' seconds'',
            exc_info = None\<rparr>]\<rparr>)"
  using assms
  by (simp add: process_csv_try_def Let_def time_time_def logging_info_def emit_def
      warn_if_missing_eq)

lemma logcsvfile_process_csv_try_completes:
  assumes "read_csv env p = Inr d" and "fillna (pandas_upcasts env) ''UNKNOWN'' d = Inr filled"
  shows "logcsvfile_process_csv_try env p w =
    (Inr \<lparr>df = filled, missing = count_missing d,
          elapsed = fsub env (clock env (Suc (ticks w))) (clock env (ticks w))\<rparr>,
     w\<lparr>ticks := Suc (Suc (ticks w)), logged := logged w @
       [\<lparr>levelname = INFO, message = ''Starting processing for '' @ p, exc_info = None\<rparr>]
       @ (if 0 < count_missing d
          then [\<lparr>levelname = WARNING,
                 message = ''File '' @ p @ '' contains '' @ str_int (count_missing d)
                   @ '' missing values'',
                 exc_info = None\<rparr>]
          else [])
       @ [\<lparr>levelname = INFO,
            message = ''Processing completed in ''
              @ fmt_2f env (fsub env (clock env (Suc (ticks w))) (clock env (ticks w)))
              @ '' seconds'',
            exc_info = None\<rparr>]\<rparr>)"
  using assms
  by (simp add: logcsvfile_process_csv_try_def Let_def time_time_def logging_info_def emit_def
      logcsvfile_warn_if_missing_eq)

text \<open>What the \<^verbatim>\<open>try\<close> block has logged when it ends, either way, holds no ERROR record.\<close>

lemma process_csv_try_log:
  obtains rs where "logged (snd (process_csv_try env p w)) = logged w @ rs"
    and "filter (\<lambda>r. levelname r = ERROR) rs = []"
proof (cases "read_csv env p")
  case (Inl e)
  show ?thesis
    by (rule that [of "[\<lparr>levelname = INFO, message = ''Starting processing for file: '' @ p,
        exc_info = None\<rparr>]"]) (simp_all add: process_csv_try_raises [OF Inl])
next
  case (Inr d)
  show ?thesis
  proof (cases "fillna (pandas_upcasts env) ''UNKNOWN'' d")
    case (Inl e)
    show ?thesis
      by (rule that [of "drop (length (logged w)) (logged (snd (process_csv_try env p w)))"])
        (simp_all add: process_csv_try_fill_raises [OF Inr Inl])
  next
    case filled: (Inr filled)
    show ?thesis
      by (rule that [of "drop (length (logged w)) (logged (snd (process_csv_try env p w)))"])
        (simp_all add: process_csv_try_completes [OF Inr filled])
  qed
qed

lemma logcsvfile_process_csv_try_log:
  obtains rs where "logged (snd (logcsvfile_process_csv_try env p w)) = logged w @ rs"
    and "filter (\<lambda>r. levelname r = ERROR) rs = []"
proof (cases "read_csv env p")
  case (Inl e)
  show ?thesis
    by (rule that [of "[\<lparr>levelname = INFO, message = ''Starting processing for '' @ p,
        exc_info = None\<rparr>]"]) (simp_all add: logcsvfile_process_csv_try_raises [OF Inl])
next
  case (Inr d)
  show ?thesis
  proof (cases "fillna (pandas_upcasts env) ''UNKNOWN'' d")
    case (Inl e)
    show ?thesis
      by (rule that [of "drop (length (logged w))
          (logged (snd (logcsvfile_process_csv_try env p w)))"])
        (simp_all add: logcsvfile_process_csv_try_fill_raises [OF Inr Inl])
  next
    case filled: (Inr filled)
    show ?thesis
      by (rule that [of "drop (length (logged w))
          (logged (snd (logcsvfile_process_csv_try env p w)))"])
        (simp_all add: logcsvfile_process_csv_try_completes [OF Inr filled])
  qed
qed

text \<open>The handler: whatever the \<^verbatim>\<open>try\<close> block raises is logged, and the function returns.\<close>

lemma process_csv_caught:
  assumes "fst (process_csv_try env p w) = Inl e"
  shows "process_csv env p w =
    (Inr PyNone,
     logging_exception (''Failed to process file '' @ [squote] @ p @ [squote] @ '': ''
       @ exc_str e) e (snd (process_csv_try env p w)))"
  using assms by (cases "process_csv_try env p w") (simp add: process_csv_def)

lemma logcsvfile_process_csv_caught:
  assumes "fst (logcsvfile_process_csv_try env p w) = Inl e"
  shows "logcsvfile_process_csv env p w =
    (Inr PyNone,
     logging_error (''Error processing '' @ p @ '': '' @ exc_str e)
       (snd (logcsvfile_process_csv_try env p w)))"
  using assms by (cases "logcsvfile_process_csv_try env p w") (simp add: logcsvfile_process_csv_def)

lemma process_csv_done:
  assumes "fst (process_csv_try env p w) = Inr locals"
  shows "process_csv env p w = (Inr PyNone, snd (process_csv_try env p w))"
  using assms by (cases "process_csv_try env p w") (simp add: process_csv_def)

lemma logcsvfile_process_csv_done:
  assumes "fst (logcsvfile_process_csv_try env p w) = Inr locals"
  shows "logcsvfile_process_csv env p w = (Inr PyNone, snd (logcsvfile_process_csv_try env p w))"
  using assms by (cases "logcsvfile_process_csv_try env p w") (simp add: logcsvfile_process_csv_def)

lemma process_csv_completes:
  assumes "read_csv env p = Inr d" and "fillna (pandas_upcasts env) ''UNKNOWN'' d = Inr filled"
  shows "process_csv env p w = (Inr PyNone, snd (process_csv_try env p w))"
    and "logcsvfile_process_csv env p w = (Inr PyNone, snd (logcsvfile_process_csv_try env p w))"
  by (simp_all add: process_csv_def logcsvfile_process_csv_def
      process_csv_try_completes [OF assms] logcsvfile_process_csv_try_completes [OF assms])

lemma process_csv_returns:
  "fst (process_csv env p w) = Inr PyNone" "fst (logcsvfile_process_csv env p w) = Inr PyNone"
proof -
  show "fst (process_csv env p w) = Inr PyNone"
    by (cases "fst (process_csv_try env p w)") (simp_all add: process_csv_caught process_csv_done)
  show "fst (logcsvfile_process_csv env p w) = Inr PyNone"
    by (cases "fst (logcsvfile_process_csv_try env p w)")
      (simp_all add: logcsvfile_process_csv_caught logcsvfile_process_csv_done)
qed

lemma caught_records:
  assumes "fst (process_csv_try env p w) = Inl e"
  obtains rs where "emitted w (snd (process_csv env p w)) = rs @
      [\<lparr>levelname = ERROR,
        message = ''Failed to process file '' @ [squote] @ p @ [squote] @ '': '' @ exc_str e,
        exc_info = Some e\<rparr>]"
    and "filter (\<lambda>r. levelname r = ERROR) rs = []"
proof -
  obtain rs where rs: "logged (snd (process_csv_try env p w)) = logged w @ rs"
      "filter (\<lambda>r. levelname r = ERROR) rs = []"
    by (rule process_csv_try_log)
  show ?thesis
    by (rule that [of rs])
      (simp_all add: process_csv_caught [OF assms] logging_exception_def emitted_def rs)
qed

lemma logcsvfile_caught_records:
  assumes "fst (logcsvfile_process_csv_try env p w) = Inl e"
  obtains rs where "emitted w (snd (logcsvfile_process_csv env p w)) = rs @
      [\<lparr>levelname = ERROR,
        message = ''Error processing '' @ p @ '': '' @ exc_str e,
        exc_info = None\<rparr>]"
    and "filter (\<lambda>r. levelname r = ERROR) rs = []"
proof -
  obtain rs where rs: "logged (snd (logcsvfile_process_csv_try env p w)) = logged w @ rs"
      "filter (\<lambda>r. levelname r = ERROR) rs = []"
    by (rule logcsvfile_process_csv_try_log)
  show ?thesis
    by (rule that [of rs])
      (simp_all add: logcsvfile_process_csv_caught [OF assms] logging_error_def emitted_def rs)
qed

lemma py_repr_nope: "py_repr ''nope.csv'' = [squote] @ ''nope.csv'' @ [squote]"
  by (simp add: py_repr_def Let_def repr_char_def squote_def dquote_def backslash_def)

lemma read_csv_env_with:
  "read_csv (env_with d) ''data.csv'' = Inr d"
  "read_csv (env_with d) ''nope.csv'' = Inl (file_not_found ''nope.csv'')"
  "read_csv (earlier_env_with d) ''data.csv'' = Inr d"
  "pandas_upcasts (env_with d) = False"
  "pandas_upcasts (earlier_env_with d) = True"
  by (simp_all add: env_with_def earlier_env_with_def)

lemma count_missing_staff:
  "count_missing staff_frame = 2" "count_missing other_staff_frame = 2"
  by (simp_all add: count_missing_filter staff_frame_def other_staff_frame_def)

lemma fillna_staff:
  "fillna False ''UNKNOWN'' staff_frame = Inr (fill_all (PyStr ''UNKNOWN'') staff_frame)"
  "fillna False ''UNKNOWN'' other_staff_frame
     = Inr (fill_all (PyStr ''UNKNOWN'') other_staff_frame)"
  "fillna False ''UNKNOWN'' short_row_frame = Inr (fill_all (PyStr ''UNKNOWN'') short_row_frame)"
  "fillna False ''UNKNOWN'' ages_frame = Inl (invalid_value ''UNKNOWN'')"
  by (simp_all add: fillna_def staff_frame_accepts ages_frame_refuses)

text \<open>
  C10. Whatever the path, the files, the installed pandas, the clock and the log so far, the
  value that a run fills with is the string \<^verbatim>\<open>"UNKNOWN"\<close>: once a frame is loaded, the
  \<^verbatim>\<open>try\<close> block ends as filling that frame with \<^verbatim>\<open>"UNKNOWN"\<close> ends, and when it ends normally
  every cell that was missing holds \<^verbatim>\<open>"UNKNOWN"\<close>. \<^verbatim>\<open>process_csv\<close> has the one parameter
  \<^verbatim>\<open>file_path\<close>; nothing it is given selects another replacement.
\<close>

theorem sentinel_is_UNKNOWN:
  "read_csv env file_path = Inr d \<longrightarrow>
     map_sum id df (fst (process_csv_try env file_path w))
       = fillna (pandas_upcasts env) ''UNKNOWN'' d
   \<and> map_sum id df (fst (logcsvfile_process_csv_try env file_path w))
       = fillna (pandas_upcasts env) ''UNKNOWN'' d
   \<and> (\<forall>filled j i. fillna (pandas_upcasts env) ''UNKNOWN'' d = Inr filled \<longrightarrow>
         j < length d \<longrightarrow> i < length (snd (d ! j)) \<longrightarrow> snd (d ! j) ! i = NaN \<longrightarrow>
         snd (filled ! j) ! i = Val (PyStr ''UNKNOWN''))"
proof (intro impI conjI allI)
  assume loaded: "read_csv env file_path = Inr d"
  show "map_sum id df (fst (process_csv_try env file_path w))
      = fillna (pandas_upcasts env) ''UNKNOWN'' d"
    by (cases "fillna (pandas_upcasts env) ''UNKNOWN'' d")
      (simp_all add: process_csv_try_fill_raises [OF loaded]
        process_csv_try_completes [OF loaded])
  show "map_sum id df (fst (logcsvfile_process_csv_try env file_path w))
      = fillna (pandas_upcasts env) ''UNKNOWN'' d"
    by (cases "fillna (pandas_upcasts env) ''UNKNOWN'' d")
      (simp_all add: logcsvfile_process_csv_try_fill_raises [OF loaded]
        logcsvfile_process_csv_try_completes [OF loaded])
next
  fix filled j i
  assume "fillna (pandas_upcasts env) ''UNKNOWN'' d = Inr filled"
    and "j < length d" and "i < length (snd (d ! j))" and "snd (d ! j) ! i = NaN"
  then show "snd (filled ! j) ! i = Val (PyStr ''UNKNOWN'')"
    by (rule filled_frame_cells(2))
qed

theorem sentinel_is_UNKNOWN_witness:
  "read_csv (env_with staff_frame) ''data.csv'' = Inr staff_frame
   \<and> map_sum id df (fst (process_csv_try (env_with staff_frame) ''data.csv'' world0))
       = Inr [(''ID'', [Val (PyInt 1), Val (PyInt 2), Val (PyInt 3)]),
              (''Name'', [Val (PyStr ''User_1''), Val (PyStr ''User_2''), Val (PyStr ''User_3'')]),
              (''Department'', [Val (PyStr ''HR''), Val (PyStr ''UNKNOWN''), Val (PyStr ''UNKNOWN'')])]
   \<and> map_sum id df (fst (logcsvfile_process_csv_try (env_with staff_frame) ''data.csv'' world0))
       = Inr [(''ID'', [Val (PyInt 1), Val (PyInt 2), Val (PyInt 3)]),
              (''Name'', [Val (PyStr ''User_1''), Val (PyStr ''User_2''), Val (PyStr ''User_3'')]),
              (''Department'', [Val (PyStr ''HR''), Val (PyStr ''UNKNOWN''), Val (PyStr ''UNKNOWN'')])]"
  using sentinel_is_UNKNOWN [of "env_with staff_frame" "''data.csv''" staff_frame world0]
  by (simp add: read_csv_env_with fillna_staff)
    (simp add: staff_frame_def fill_all_def)

text \<open>
  C1, as the code has it. \<^verbatim>\<open>process_csv\<close> returns \<^verbatim>\<open>None\<close> on every path and raises nothing.
  Whether the pipeline completed shows only in the last record of the log: an INFO record
  with the elapsed time when the \<^verbatim>\<open>try\<close> block ends normally, an ERROR record with the text of
  the exception when loading or filling raises. The filled frame, the elapsed time and the
  count are not handed back.
\<close>

theorem process_csv_returns_None:
  "fst (process_csv env file_path w) = Inr PyNone
   \<and> fst (logcsvfile_process_csv env file_path w) = Inr PyNone
   \<and> (read_csv env file_path = Inr d \<longrightarrow>
      fillna (pandas_upcasts env) ''UNKNOWN'' d = Inr filled \<longrightarrow>
        last (logged (snd (process_csv env file_path w)))
          = \<lparr>levelname = INFO,
             message = ''Processing completed in ''
               @ fmt_2f env (fsub env (clock env (Suc (ticks w))) (clock env (ticks w)))
               @ '' seconds'',
             exc_info = None\<rparr>
      \<and> last (logged (snd (logcsvfile_process_csv env file_path w)))
          = \<lparr>levelname = INFO,
             message = ''Processing completed in ''
               @ fmt_2f env (fsub env (clock env (Suc (ticks w))) (clock env (ticks w)))
               @ '' seconds'',
             exc_info = None\<rparr>)
   \<and> (read_csv env file_path = Inl e
        \<or> (read_csv env file_path = Inr d \<and> fillna (pandas_upcasts env) ''UNKNOWN'' d = Inl e)
      \<longrightarrow>
        last (logged (snd (process_csv env file_path w)))
          = \<lparr>levelname = ERROR,
             message = ''Failed to process file '' @ [squote] @ file_path @ [squote] @ '': ''
               @ exc_str e,
             exc_info = Some e\<rparr>
      \<and> last (logged (snd (logcsvfile_process_csv env file_path w)))
          = \<lparr>levelname = ERROR,
             message = ''Error processing '' @ file_path @ '': '' @ exc_str e,
             exc_info = None\<rparr>)"
proof (intro conjI impI)
  show "fst (process_csv env file_path w) = Inr PyNone"
    by (rule process_csv_returns)
  show "fst (logcsvfile_process_csv env file_path w) = Inr PyNone"
    by (rule process_csv_returns)
next
  assume loaded: "read_csv env file_path = Inr d"
    and filled: "fillna (pandas_upcasts env) ''UNKNOWN'' d = Inr filled"
  have ended: "fst (process_csv_try env file_path w)
      = Inr \<lparr>df = filled, missing = count_missing d,
             elapsed = fsub env (clock env (Suc (ticks w))) (clock env (ticks w))\<rparr>"
    by (simp add: process_csv_try_completes [OF loaded filled])
  show "last (logged (snd (process_csv env file_path w)))
      = \<lparr>levelname = INFO,
         message = ''Processing completed in ''
           @ fmt_2f env (fsub env (clock env (Suc (ticks w))) (clock env (ticks w)))
           @ '' seconds'',
         exc_info = None\<rparr>"
    by (simp add: process_csv_done [OF ended] process_csv_try_completes [OF loaded filled])
  have ended': "fst (logcsvfile_process_csv_try env file_path w)
      = Inr \<lparr>df = filled, missing = count_missing d,
             elapsed = fsub env (clock env (Suc (ticks w))) (clock env (ticks w))\<rparr>"
    by (simp add: logcsvfile_process_csv_try_completes [OF loaded filled])
  show "last (logged (snd (logcsvfile_process_csv env file_path w)))
      = \<lparr>levelname = INFO,
         message = ''Processing completed in ''
           @ fmt_2f env (fsub env (clock env (Suc (ticks w))) (clock env (ticks w)))
           @ '' seconds'',
         exc_info = None\<rparr>"
    by (simp add: logcsvfile_process_csv_done [OF ended']
        logcsvfile_process_csv_try_completes [OF loaded filled])
next
  assume "read_csv env file_path = Inl e
      \<or> (read_csv env file_path = Inr d \<and> fillna (pandas_upcasts env) ''UNKNOWN'' d = Inl e)"
  then have raised: "fst (process_csv_try env file_path w) = Inl e"
      "fst (logcsvfile_process_csv_try env file_path w) = Inl e"
    by (auto simp: process_csv_try_raises process_csv_try_fill_raises
        logcsvfile_process_csv_try_raises logcsvfile_process_csv_try_fill_raises)
  show "last (logged (snd (process_csv env file_path w)))
      = \<lparr>levelname = ERROR,
         message = ''Failed to process file '' @ [squote] @ file_path @ [squote] @ '': ''
           @ exc_str e,
         exc_info = Some e\<rparr>"
    by (simp add: process_csv_caught [OF raised(1)] logging_exception_def)
  show "last (logged (snd (logcsvfile_process_csv env file_path w)))
      = \<lparr>levelname = ERROR,
         message = ''Error processing '' @ file_path @ '': '' @ exc_str e,
         exc_info = None\<rparr>"
    by (simp add: logcsvfile_process_csv_caught [OF raised(2)] logging_error_def)
qed

theorem process_csv_returns_None_witness:
  "read_csv (env_with staff_frame) ''data.csv'' = Inr staff_frame
   \<and> fillna (pandas_upcasts (env_with staff_frame)) ''UNKNOWN'' staff_frame
       = Inr (fill_all (PyStr ''UNKNOWN'') staff_frame)
   \<and> last (logged (snd (process_csv (env_with staff_frame) ''data.csv'' world0)))
       = \<lparr>levelname = INFO, message = ''Processing completed in 3.00 seconds'',
          exc_info = None\<rparr>
   \<and> read_csv (env_with staff_frame) ''nope.csv'' = Inl (file_not_found ''nope.csv'')
   \<and> last (logged (snd (process_csv (env_with staff_frame) ''nope.csv'' world0)))
       = \<lparr>levelname = ERROR,
          message = ''Failed to process file '' @ [squote] @ ''nope.csv'' @ [squote]
            @ '': [Errno 2] No such file or directory: '' @ [squote] @ ''nope.csv'' @ [squote],
          exc_info = Some (file_not_found ''nope.csv'')\<rparr>
   \<and> read_csv (env_with ages_frame) ''data.csv'' = Inr ages_frame
   \<and> fillna (pandas_upcasts (env_with ages_frame)) ''UNKNOWN'' ages_frame
       = Inl (invalid_value ''UNKNOWN'')
   \<and> last (logged (snd (logcsvfile_process_csv (env_with ages_frame) ''data.csv'' world0)))
       = \<lparr>levelname = ERROR,
          message = ''Error processing data.csv: Invalid value '' @ [squote] @ ''UNKNOWN''
            @ [squote] @ '' for dtype '' @ [squote] @ ''float64'' @ [squote],
          exc_info = None\<rparr>"
  using process_csv_returns_None [of "env_with staff_frame" "''data.csv''" world0 staff_frame
      "fill_all (PyStr ''UNKNOWN'') staff_frame"]
    process_csv_returns_None [of "env_with staff_frame" "''nope.csv''" world0 staff_frame _
      "file_not_found ''nope.csv''"]
    process_csv_returns_None [of "env_with ages_frame" "''data.csv''" world0 ages_frame _
      "invalid_value ''UNKNOWN''"]
  by (simp add: read_csv_env_with fillna_staff)
    (simp add: env_with_def world0_def str_int_def str_nat.simps digit_char_def
      file_not_found_def py_repr_nope invalid_value_def)

text \<open>
  C1 as stated fails. Two runs on the same path, over files whose filled frames differ, return
  the same value and leave the same log: what the caller gets is \<^verbatim>\<open>None\<close>, which carries no
  frame.
\<close>

theorem cleaned_dataset_not_returned:
  "process_csv (env_with staff_frame) ''data.csv'' world0
     = process_csv (env_with other_staff_frame) ''data.csv'' world0
   \<and> logcsvfile_process_csv (env_with staff_frame) ''data.csv'' world0
     = logcsvfile_process_csv (env_with other_staff_frame) ''data.csv'' world0
   \<and> fst (process_csv (env_with staff_frame) ''data.csv'' world0) = Inr PyNone
   \<and> fst (logcsvfile_process_csv (env_with staff_frame) ''data.csv'' world0) = Inr PyNone
   \<and> map_sum id df (fst (process_csv_try (env_with staff_frame) ''data.csv'' world0))
     \<noteq> map_sum id df (fst (process_csv_try (env_with other_staff_frame) ''data.csv'' world0))
   \<and> map_sum id df (fst (logcsvfile_process_csv_try (env_with staff_frame) ''data.csv'' world0))
     \<noteq> map_sum id df
         (fst (logcsvfile_process_csv_try (env_with other_staff_frame) ''data.csv'' world0))"
proof -
  have sa: "read_csv (env_with staff_frame) ''data.csv'' = Inr staff_frame"
    and sb: "read_csv (env_with other_staff_frame) ''data.csv'' = Inr other_staff_frame"
    by (rule read_csv_env_with)+
  have fa: "fillna (pandas_upcasts (env_with staff_frame)) ''UNKNOWN'' staff_frame
      = Inr (fill_all (PyStr ''UNKNOWN'') staff_frame)"
    and fb: "fillna (pandas_upcasts (env_with other_staff_frame)) ''UNKNOWN'' other_staff_frame
      = Inr (fill_all (PyStr ''UNKNOWN'') other_staff_frame)"
    by (simp_all add: read_csv_env_with fillna_staff)
  have differ: "fill_all (PyStr ''UNKNOWN'') staff_frame
      \<noteq> fill_all (PyStr ''UNKNOWN'') other_staff_frame"
    by (simp add: staff_frame_def other_staff_frame_def fill_all_def)
  show ?thesis
    using differ
    by (simp add: process_csv_completes [OF sa fa] process_csv_completes [OF sb fb]
        process_csv_try_completes [OF sa fa] process_csv_try_completes [OF sb fb]
        logcsvfile_process_csv_try_completes [OF sa fa]
        logcsvfile_process_csv_try_completes [OF sb fb] count_missing_staff)
      (simp add: env_with_def)
qed

text \<open>
  C2, as the code has it. When a statement of the \<^verbatim>\<open>try\<close> block raises an exception \<open>e\<close>,
  during loading (a path that does not resolve to a readable file among the causes), counting
  or filling, the handler catches it: the run appends exactly one ERROR record, the last of the
  run, whose message contains the path and \<^verbatim>\<open>str(e)\<close>, and the function returns \<^verbatim>\<open>None\<close>
  normally. The block raises \<open>e\<close> when loading raises it and when, a frame being loaded,
  filling raises it; counting does not raise.
\<close>

theorem fault_logged_once:
  "(fst (process_csv_try env file_path w) = Inl e \<longrightarrow>
      fst (process_csv env file_path w) = Inr PyNone
    \<and> length (filter (\<lambda>r. levelname r = ERROR)
         (emitted w (snd (process_csv env file_path w)))) = 1
    \<and> levelname (last (emitted w (snd (process_csv env file_path w)))) = ERROR
    \<and> sublist file_path (message (last (emitted w (snd (process_csv env file_path w)))))
    \<and> sublist (exc_str e) (message (last (emitted w (snd (process_csv env file_path w))))))
   \<and> (fst (logcsvfile_process_csv_try env file_path w) = Inl e \<longrightarrow>
      fst (logcsvfile_process_csv env file_path w) = Inr PyNone
    \<and> length (filter (\<lambda>r. levelname r = ERROR)
         (emitted w (snd (logcsvfile_process_csv env file_path w)))) = 1
    \<and> levelname (last (emitted w (snd (logcsvfile_process_csv env file_path w)))) = ERROR
    \<and> sublist file_path
         (message (last (emitted w (snd (logcsvfile_process_csv env file_path w)))))
    \<and> sublist (exc_str e)
         (message (last (emitted w (snd (logcsvfile_process_csv env file_path w))))))
   \<and> (read_csv env file_path = Inl e
        \<or> (read_csv env file_path = Inr d \<and> fillna (pandas_upcasts env) ''UNKNOWN'' d = Inl e)
      \<longrightarrow> fst (process_csv_try env file_path w) = Inl e
        \<and> fst (logcsvfile_process_csv_try env file_path w) = Inl e)"
proof (intro conjI impI)
  assume raised: "fst (process_csv_try env file_path w) = Inl e"
  obtain rs where rs: "emitted w (snd (process_csv env file_path w)) = rs @
      [\<lparr>levelname = ERROR,
        message = ''Failed to process file '' @ [squote] @ file_path @ [squote] @ '': ''
          @ exc_str e,
        exc_info = Some e\<rparr>]"
      "filter (\<lambda>r. levelname r = ERROR) rs = []"
    by (rule caught_records [OF raised])
  have path: "sublist file_path
      (''Failed to process file '' @ [squote] @ file_path @ [squote] @ '': '' @ exc_str e)"
    by (rule sublist_after1)
  have descr: "sublist (exc_str e)
      (''Failed to process file '' @ [squote] @ file_path @ [squote] @ '': '' @ exc_str e)"
    using sublist_appendI [of "exc_str e"
        "''Failed to process file '' @ [squote] @ file_path @ [squote] @ '': ''" "[]"]
    by simp
  show "fst (process_csv env file_path w) = Inr PyNone"
    by (rule process_csv_returns)
  show "length (filter (\<lambda>r. levelname r = ERROR)
      (emitted w (snd (process_csv env file_path w)))) = 1"
    by (simp add: rs)
  show "levelname (last (emitted w (snd (process_csv env file_path w)))) = ERROR"
    by (simp add: rs)
  show "sublist file_path (message (last (emitted w (snd (process_csv env file_path w)))))"
    using path by (simp add: rs)
  show "sublist (exc_str e) (message (last (emitted w (snd (process_csv env file_path w)))))"
    using descr by (simp add: rs)
next
  assume raised: "fst (logcsvfile_process_csv_try env file_path w) = Inl e"
  obtain rs where rs: "emitted w (snd (logcsvfile_process_csv env file_path w)) = rs @
      [\<lparr>levelname = ERROR,
        message = ''Error processing '' @ file_path @ '': '' @ exc_str e,
        exc_info = None\<rparr>]"
      "filter (\<lambda>r. levelname r = ERROR) rs = []"
    by (rule logcsvfile_caught_records [OF raised])
  have path: "sublist file_path (''Error processing '' @ file_path @ '': '' @ exc_str e)"
    by (rule sublist_after)
  have descr: "sublist (exc_str e) (''Error processing '' @ file_path @ '': '' @ exc_str e)"
    using sublist_appendI [of "exc_str e" "''Error processing '' @ file_path @ '': ''" "[]"]
    by simp
  show "fst (logcsvfile_process_csv env file_path w) = Inr PyNone"
    by (rule process_csv_returns)
  show "length (filter (\<lambda>r. levelname r = ERROR)
      (emitted w (snd (logcsvfile_process_csv env file_path w)))) = 1"
    by (simp add: rs)
  show "levelname (last (emitted w (snd (logcsvfile_process_csv env file_path w)))) = ERROR"
    by (simp add: rs)
  show "sublist file_path
      (message (last (emitted w (snd (logcsvfile_process_csv env file_path w)))))"
    using path by (simp add: rs)
  show "sublist (exc_str e)
      (message (last (emitted w (snd (logcsvfile_process_csv env file_path w)))))"
    using descr by (simp add: rs)
next
  assume "read_csv env file_path = Inl e
      \<or> (read_csv env file_path = Inr d \<and> fillna (pandas_upcasts env) ''UNKNOWN'' d = Inl e)"
  then show "fst (process_csv_try env file_path w) = Inl e"
    by (auto simp: process_csv_try_raises process_csv_try_fill_raises)
next
  assume "read_csv env file_path = Inl e
      \<or> (read_csv env file_path = Inr d \<and> fillna (pandas_upcasts env) ''UNKNOWN'' d = Inl e)"
  then show "fst (logcsvfile_process_csv_try env file_path w) = Inl e"
    by (auto simp: logcsvfile_process_csv_try_raises logcsvfile_process_csv_try_fill_raises)
qed

theorem fault_logged_once_witness:
  "read_csv (env_with staff_frame) ''nope.csv'' = Inl (file_not_found ''nope.csv'')
   \<and> fst (process_csv_try (env_with staff_frame) ''nope.csv'' world0)
       = Inl (file_not_found ''nope.csv'')
   \<and> fst (process_csv (env_with staff_frame) ''nope.csv'' world0) = Inr PyNone
   \<and> length (filter (\<lambda>r. levelname r = ERROR)
        (emitted world0 (snd (process_csv (env_with staff_frame) ''nope.csv'' world0)))) = 1
   \<and> sublist ''nope.csv''
        (message (last (emitted world0
           (snd (process_csv (env_with staff_frame) ''nope.csv'' world0)))))
   \<and> read_csv (env_with ages_frame) ''data.csv'' = Inr ages_frame
   \<and> fillna (pandas_upcasts (env_with ages_frame)) ''UNKNOWN'' ages_frame
       = Inl (invalid_value ''UNKNOWN'')
   \<and> fst (logcsvfile_process_csv_try (env_with ages_frame) ''data.csv'' world0)
       = Inl (invalid_value ''UNKNOWN'')
   \<and> length (filter (\<lambda>r. levelname r = ERROR)
        (emitted world0 (snd (logcsvfile_process_csv (env_with ages_frame) ''data.csv'' world0))))
       = 1
   \<and> sublist (exc_str (invalid_value ''UNKNOWN''))
        (message (last (emitted world0
           (snd (logcsvfile_process_csv (env_with ages_frame) ''data.csv'' world0)))))"
  using fault_logged_once [of "env_with staff_frame" "''nope.csv''" world0
      "file_not_found ''nope.csv''" staff_frame]
    fault_logged_once [of "env_with ages_frame" "''data.csv''" world0
      "invalid_value ''UNKNOWN''" ages_frame]
  by (simp add: read_csv_env_with fillna_staff)

text \<open>
  C2 as stated fails in one part: no failure outcome is returned. At a path that is not there
  the function returns \<^verbatim>\<open>None\<close>, the value it returns when the pipeline completes.
\<close>

theorem missing_path_returns_None:
  "read_csv (env_with staff_frame) ''nope.csv'' = Inl (file_not_found ''nope.csv'')
   \<and> fst (process_csv (env_with staff_frame) ''nope.csv'' world0) = Inr PyNone
   \<and> fst (process_csv (env_with staff_frame) ''nope.csv'' world0)
       = fst (process_csv (env_with staff_frame) ''data.csv'' world0)
   \<and> fst (logcsvfile_process_csv (env_with staff_frame) ''nope.csv'' world0) = Inr PyNone
   \<and> fst (logcsvfile_process_csv (env_with staff_frame) ''nope.csv'' world0)
       = fst (logcsvfile_process_csv (env_with staff_frame) ''data.csv'' world0)"
  by (simp add: read_csv_env_with process_csv_returns)

text \<open>
  C6, as the code has it. A run only appends to the log. It first appends the INFO start
  record and reads the clock. When loading raises, it then appends one ERROR record. When a
  frame is loaded, it appends one WARNING record if cells are missing; then, when filling
  raises, one ERROR record, and otherwise, after a second reading of the clock, the INFO
  completion record. The filled frame stays local to the run.
\<close>

theorem run_log_sequence:
  "logged (snd (process_csv env file_path w))
     = logged w @ emitted w (snd (process_csv env file_path w))
   \<and> logged (snd (logcsvfile_process_csv env file_path w))
     = logged w @ emitted w (snd (logcsvfile_process_csv env file_path w))
   \<and> (read_csv env file_path = Inl e \<longrightarrow>
        map levelname (emitted w (snd (process_csv env file_path w))) = [INFO, ERROR]
      \<and> map levelname (emitted w (snd (logcsvfile_process_csv env file_path w)))
          = [INFO, ERROR]
      \<and> ticks (snd (process_csv env file_path w)) = Suc (ticks w)
      \<and> ticks (snd (logcsvfile_process_csv env file_path w)) = Suc (ticks w))
   \<and> (read_csv env file_path = Inr d \<longrightarrow>
      fillna (pandas_upcasts env) ''UNKNOWN'' d = Inl e \<longrightarrow>
        map levelname (emitted w (snd (process_csv env file_path w)))
          = (if 0 < count_missing d then [INFO, WARNING, ERROR] else [INFO, ERROR])
      \<and> map levelname (emitted w (snd (logcsvfile_process_csv env file_path w)))
          = (if 0 < count_missing d then [INFO, WARNING, ERROR] else [INFO, ERROR])
      \<and> ticks (snd (process_csv env file_path w)) = Suc (ticks w)
      \<and> ticks (snd (logcsvfile_process_csv env file_path w)) = Suc (ticks w))
   \<and> (read_csv env file_path = Inr d \<longrightarrow>
      fillna (pandas_upcasts env) ''UNKNOWN'' d = Inr filled \<longrightarrow>
        map levelname (emitted w (snd (process_csv env file_path w)))
          = (if 0 < count_missing d then [INFO, WARNING, INFO] else [INFO, INFO])
      \<and> map levelname (emitted w (snd (logcsvfile_process_csv env file_path w)))
          = (if 0 < count_missing d then [INFO, WARNING, INFO] else [INFO, INFO])
      \<and> ticks (snd (process_csv env file_path w)) = Suc (Suc (ticks w))
      \<and> ticks (snd (logcsvfile_process_csv env file_path w)) = Suc (Suc (ticks w)))"
proof (intro conjI impI)
  show "logged (snd (process_csv env file_path w))
     = logged w @ emitted w (snd (process_csv env file_path w))"
  proof -
    obtain rs where rs: "logged (snd (process_csv_try env file_path w)) = logged w @ rs"
      by (rule process_csv_try_log)
    show ?thesis
      by (cases "fst (process_csv_try env file_path w)")
        (simp_all add: process_csv_caught process_csv_done logging_exception_def emitted_def rs)
  qed
  show "logged (snd (logcsvfile_process_csv env file_path w))
     = logged w @ emitted w (snd (logcsvfile_process_csv env file_path w))"
  proof -
    obtain rs where rs: "logged (snd (logcsvfile_process_csv_try env file_path w)) = logged w @ rs"
      by (rule logcsvfile_process_csv_try_log)
    show ?thesis
      by (cases "fst (logcsvfile_process_csv_try env file_path w)")
        (simp_all add: logcsvfile_process_csv_caught logcsvfile_process_csv_done
          logging_error_def emitted_def rs)
  qed
next
  assume bad: "read_csv env file_path = Inl e"
  have raised: "fst (process_csv_try env file_path w) = Inl e"
    by (simp add: process_csv_try_raises [OF bad])
  have raised': "fst (logcsvfile_process_csv_try env file_path w) = Inl e"
    by (simp add: logcsvfile_process_csv_try_raises [OF bad])
  show "map levelname (emitted w (snd (process_csv env file_path w))) = [INFO, ERROR]"
    by (simp add: process_csv_caught [OF raised] process_csv_try_raises [OF bad]
        logging_exception_def emitted_def)
  show "map levelname (emitted w (snd (logcsvfile_process_csv env file_path w))) = [INFO, ERROR]"
    by (simp add: logcsvfile_process_csv_caught [OF raised']
        logcsvfile_process_csv_try_raises [OF bad] logging_error_def emitted_def)
  show "ticks (snd (process_csv env file_path w)) = Suc (ticks w)"
    by (simp add: process_csv_caught [OF raised] process_csv_try_raises [OF bad]
        logging_exception_def)
  show "ticks (snd (logcsvfile_process_csv env file_path w)) = Suc (ticks w)"
    by (simp add: logcsvfile_process_csv_caught [OF raised']
        logcsvfile_process_csv_try_raises [OF bad] logging_error_def)
next
  assume loaded: "read_csv env file_path = Inr d"
    and refused: "fillna (pandas_upcasts env) ''UNKNOWN'' d = Inl e"
  have raised: "fst (process_csv_try env file_path w) = Inl e"
    by (simp add: process_csv_try_fill_raises [OF loaded refused])
  have raised': "fst (logcsvfile_process_csv_try env file_path w) = Inl e"
    by (simp add: logcsvfile_process_csv_try_fill_raises [OF loaded refused])
  show "map levelname (emitted w (snd (process_csv env file_path w)))
      = (if 0 < count_missing d then [INFO, WARNING, ERROR] else [INFO, ERROR])"
    by (simp add: process_csv_caught [OF raised] process_csv_try_fill_raises [OF loaded refused]
        logging_exception_def emitted_def)
  show "map levelname (emitted w (snd (logcsvfile_process_csv env file_path w)))
      = (if 0 < count_missing d then [INFO, WARNING, ERROR] else [INFO, ERROR])"
    by (simp add: logcsvfile_process_csv_caught [OF raised']
        logcsvfile_process_csv_try_fill_raises [OF loaded refused] logging_error_def emitted_def)
  show "ticks (snd (process_csv env file_path w)) = Suc (ticks w)"
    by (simp add: process_csv_caught [OF raised] process_csv_try_fill_raises [OF loaded refused]
        logging_exception_def)
  show "ticks (snd (logcsvfile_process_csv env file_path w)) = Suc (ticks w)"
    by (simp add: logcsvfile_process_csv_caught [OF raised']
        logcsvfile_process_csv_try_fill_raises [OF loaded refused] logging_error_def)
next
  assume loaded: "read_csv env file_path = Inr d"
    and filled: "fillna (pandas_upcasts env) ''UNKNOWN'' d = Inr filled"
  have ended: "fst (process_csv_try env file_path w)
      = Inr \<lparr>df = filled, missing = count_missing d,
             elapsed = fsub env (clock env (Suc (ticks w))) (clock env (ticks w))\<rparr>"
    by (simp add: process_csv_try_completes [OF loaded filled])
  have ended': "fst (logcsvfile_process_csv_try env file_path w)
      = Inr \<lparr>df = filled, missing = count_missing d,
             elapsed = fsub env (clock env (Suc (ticks w))) (clock env (ticks w))\<rparr>"
    by (simp add: logcsvfile_process_csv_try_completes [OF loaded filled])
  show "map levelname (emitted w (snd (process_csv env file_path w)))
      = (if 0 < count_missing d then [INFO, WARNING, INFO] else [INFO, INFO])"
    by (simp add: process_csv_done [OF ended] process_csv_try_completes [OF loaded filled]
        emitted_def)
  show "map levelname (emitted w (snd (logcsvfile_process_csv env file_path w)))
      = (if 0 < count_missing d then [INFO, WARNING, INFO] else [INFO, INFO])"
    by (simp add: logcsvfile_process_csv_done [OF ended']
        logcsvfile_process_csv_try_completes [OF loaded filled] emitted_def)
  show "ticks (snd (process_csv env file_path w)) = Suc (Suc (ticks w))"
    by (simp add: process_csv_done [OF ended] process_csv_try_completes [OF loaded filled])
  show "ticks (snd (logcsvfile_process_csv env file_path w)) = Suc (Suc (ticks w))"
    by (simp add: logcsvfile_process_csv_done [OF ended']
        logcsvfile_process_csv_try_completes [OF loaded filled])
qed

theorem run_log_sequence_witness:
  "read_csv (env_with staff_frame) ''data.csv'' = Inr staff_frame
   \<and> fillna (pandas_upcasts (env_with staff_frame)) ''UNKNOWN'' staff_frame
       = Inr (fill_all (PyStr ''UNKNOWN'') staff_frame)
   \<and> map levelname (emitted world0 (snd (process_csv (env_with staff_frame) ''data.csv'' world0)))
       = [INFO, WARNING, INFO]
   \<and> read_csv (env_with staff_frame) ''nope.csv'' = Inl (file_not_found ''nope.csv'')
   \<and> map levelname
        (emitted world0 (snd (logcsvfile_process_csv (env_with staff_frame) ''nope.csv'' world0)))
       = [INFO, ERROR]
   \<and> read_csv (env_with ages_frame) ''data.csv'' = Inr ages_frame
   \<and> fillna (pandas_upcasts (env_with ages_frame)) ''UNKNOWN'' ages_frame
       = Inl (invalid_value ''UNKNOWN'')
   \<and> map levelname (emitted world0 (snd (process_csv (env_with ages_frame) ''data.csv'' world0)))
       = [INFO, WARNING, ERROR]"
  using run_log_sequence [of "env_with staff_frame" "''data.csv''" world0 _ staff_frame
      "fill_all (PyStr ''UNKNOWN'') staff_frame"]
    run_log_sequence [of "env_with staff_frame" "''nope.csv''" world0
      "file_not_found ''nope.csv''" staff_frame]
    run_log_sequence [of "env_with ages_frame" "''data.csv''" world0
      "invalid_value ''UNKNOWN''" ages_frame]
  by (simp add: read_csv_env_with fillna_staff count_missing_staff count_missing_ages)

text \<open>
  C6 as stated fails: a failed run leaves two records, not one. The INFO start record is
  written before the file is opened.
\<close>

theorem failed_run_logs_start_line:
  "logged (snd (process_csv (env_with staff_frame) ''nope.csv'' world0))
     = [\<lparr>levelname = INFO, message = ''Starting processing for file: nope.csv'',
          exc_info = None\<rparr>,
        \<lparr>levelname = ERROR,
          message = ''Failed to process file '' @ [squote] @ ''nope.csv'' @ [squote] @ '': ''
            @ exc_str (file_not_found ''nope.csv''),
          exc_info = Some (file_not_found ''nope.csv'')\<rparr>]
   \<and> logged (snd (logcsvfile_process_csv (env_with staff_frame) ''nope.csv'' world0))
     = [\<lparr>levelname = INFO, message = ''Starting processing for nope.csv'', exc_info = None\<rparr>,
        \<lparr>levelname = ERROR,
          message = ''Error processing nope.csv: '' @ exc_str (file_not_found ''nope.csv''),
          exc_info = None\<rparr>]"
proof -
  have bad: "read_csv (env_with staff_frame) ''nope.csv'' = Inl (file_not_found ''nope.csv'')"
    by (rule read_csv_env_with)
  have raised: "fst (process_csv_try (env_with staff_frame) ''nope.csv'' world0)
      = Inl (file_not_found ''nope.csv'')"
    by (simp add: process_csv_try_raises [OF bad])
  have raised': "fst (logcsvfile_process_csv_try (env_with staff_frame) ''nope.csv'' world0)
      = Inl (file_not_found ''nope.csv'')"
    by (simp add: logcsvfile_process_csv_try_raises [OF bad])
  show ?thesis
    by (simp add: process_csv_caught [OF raised] logcsvfile_process_csv_caught [OF raised']
        process_csv_try_raises [OF bad] logcsvfile_process_csv_try_raises [OF bad]
        logging_exception_def logging_error_def)
      (simp add: world0_def)
qed

text \<open>
  C4. Here the code departs from the claim, and from its own description: the docstring says
  \<^verbatim>\<open>Replaces missing values with 'UNKNOWN'\<close>, the note in \<^verbatim>\<open>logcsvfile.py\<close> says
  \<^verbatim>\<open>Replaces all NaN (missing values) in the DataFrame with "UNKNOWN"\<close>. Under pandas 3 the
  call of line 60 (52 of \<^verbatim>\<open>logcsvfile.py\<close>) on the frame of ages raises \<^verbatim>\<open>TypeError\<close> in
  place of returning a frame whose missing age is replaced: the run warns of one missing
  value, logs the error after a single reading of the clock, and fills nothing.
\<close>

theorem fillna_refuses_float_column:
  "count_missing ages_frame = 1
   \<and> fillna False ''UNKNOWN'' ages_frame = Inl (invalid_value ''UNKNOWN'')
   \<and> fst (process_csv_try (env_with ages_frame) ''data.csv'' world0)
       = Inl (invalid_value ''UNKNOWN'')
   \<and> fst (logcsvfile_process_csv_try (env_with ages_frame) ''data.csv'' world0)
       = Inl (invalid_value ''UNKNOWN'')
   \<and> map levelname (logged (snd (process_csv (env_with ages_frame) ''data.csv'' world0)))
       = [INFO, WARNING, ERROR]
   \<and> map levelname (logged (snd (logcsvfile_process_csv (env_with ages_frame) ''data.csv'' world0)))
       = [INFO, WARNING, ERROR]
   \<and> message (last (logged (snd (logcsvfile_process_csv (env_with ages_frame) ''data.csv''
        world0))))
       = ''Error processing data.csv: Invalid value '' @ [squote] @ ''UNKNOWN'' @ [squote]
           @ '' for dtype '' @ [squote] @ ''float64'' @ [squote]
   \<and> ticks (snd (process_csv (env_with ages_frame) ''data.csv'' world0)) = 1"
proof -
  have loaded: "read_csv (env_with ages_frame) ''data.csv'' = Inr ages_frame"
    by (rule read_csv_env_with)
  have refused: "fillna (pandas_upcasts (env_with ages_frame)) ''UNKNOWN'' ages_frame
      = Inl (invalid_value ''UNKNOWN'')"
    by (simp add: read_csv_env_with fillna_staff)
  have raised: "fst (process_csv_try (env_with ages_frame) ''data.csv'' world0)
      = Inl (invalid_value ''UNKNOWN'')"
    by (simp add: process_csv_try_fill_raises [OF loaded refused])
  have raised': "fst (logcsvfile_process_csv_try (env_with ages_frame) ''data.csv'' world0)
      = Inl (invalid_value ''UNKNOWN'')"
    by (simp add: logcsvfile_process_csv_try_fill_raises [OF loaded refused])
  show ?thesis
    by (simp add: count_missing_ages fillna_staff raised raised'
        process_csv_caught [OF raised] logcsvfile_process_csv_caught [OF raised']
        process_csv_try_fill_raises [OF loaded refused]
        logcsvfile_process_csv_try_fill_raises [OF loaded refused]
        logging_exception_def logging_error_def)
      (simp add: world0_def invalid_value_def)
qed

section \<open>The shape of the rows that \<^verbatim>\<open>pd.read_csv\<close> accepts\<close>

lemma kept_fields:
  "length ns = length ls \<Longrightarrow>
     map snd (filter kept_line (zip ns ls)) = filter (\<lambda>l. \<not> blank_line l) ls"
  by (induction ns ls rule: list_induct2) (simp_all add: kept_line_def)

lemma end_lines_pads:
  "\<forall>x\<in>set numbered. length (snd x) \<le> ex \<Longrightarrow>
     end_lines ex numbered
       = Inr (map (\<lambda>r. r @ replicate (ex - length r) '''') (map snd numbered))"
  by (induction numbered) auto

lemma end_lines_bad_line:
  "\<forall>x\<in>set good. length (snd x) \<le> ex \<Longrightarrow> ex < length bad \<Longrightarrow>
     end_lines ex (good @ (k, bad) # rest) = Inl (parser_error ex k (length bad))"
  by (induction good) auto

lemma end_lines_some_bad_line:
  assumes "\<exists>x\<in>set numbered. ex < length (snd x)"
  shows "\<exists>e. end_lines ex numbered = Inl e \<and> exc_class e = ''ParserError''"
proof -
  obtain good x rest where split: "numbered = good @ x # rest"
    and bad: "ex < length (snd x)" and good: "\<forall>y\<in>set good. \<not> ex < length (snd y)"
    using split_list_first_prop [OF assms] by blast
  have "end_lines ex (good @ (fst x, snd x) # rest)
      = Inl (parser_error ex (fst x) (length (snd x)))"
    using good bad by (intro end_lines_bad_line) (auto simp: not_less)
  then show ?thesis
    by (simp add: split parser_error_def)
qed

lemma table_width_ge: "n \<le> table_width n rows"
  by (cases rows) (simp_all add: table_width_def)

lemma table_width_append: "good \<noteq> [] \<Longrightarrow> table_width n (good @ more_rows) = table_width n good"
  by (cases good) (simp_all add: table_width_def)

lemma all_rows_fit:
  assumes "\<forall>r\<in>set (tl rows). length r \<le> table_width n rows"
  shows "\<forall>r\<in>set rows. length r \<le> table_width n rows"
  using assms by (cases rows) (simp_all add: table_width_def)

lemma empty_is_na: "'''' \<in> set na_values"
  by (simp add: na_values_def)

lemma blank_line_short: "blank_line l \<Longrightarrow> length l \<le> 1"
  by (cases l; cases "tl l") (auto simp: blank_line_def split: list.splits)

lemma numbered_split:
  "zip [1..<Suc (length (pre @ bad # post))] (pre @ bad # post)
     = zip [1..<Suc (length pre)] pre @ (Suc (length pre), bad)
         # zip [Suc (Suc (length pre))..<Suc (Suc (length pre)) + length post] post"
proof -
  have "Suc (length (pre @ bad # post)) = Suc (length pre) + Suc (length post)"
    by simp
  then have "[1..<Suc (length (pre @ bad # post))]
      = [1..<Suc (length pre)] @ [Suc (length pre)..<Suc (length pre) + Suc (length post)]"
    using upt_add_eq_append [of 1 "Suc (length pre)" "Suc (length post)"] by simp
  also have "[Suc (length pre)..<Suc (length pre) + Suc (length post)]
      = Suc (length pre) # [Suc (Suc (length pre))..<Suc (Suc (length pre)) + length post]"
    using upt_conv_Cons [of "Suc (length pre)" "Suc (length pre) + Suc (length post)"] by simp
  finally have numbers: "[1..<Suc (length (pre @ bad # post))]
      = [1..<Suc (length pre)] @ Suc (length pre)
          # [Suc (Suc (length pre))..<Suc (Suc (length pre)) + length post]" .
  have len: "length [1..<Suc (length pre)] = length pre"
    by (simp del: upt_Suc)
  show ?thesis
    unfolding numbers zip_append [OF len] zip_Cons_Cons by (rule refl)
qed

text \<open>The read of a file whose kept lines are known.\<close>

lemma read_kept:
  assumes "filter (\<lambda>l. \<not> blank_line l) file_lines = header # rows"
  obtains k body where
    "filter kept_line (zip [1..<Suc (length file_lines)] file_lines) = (k, header) # body"
    "map snd body = rows"
proof -
  have len: "length [1..<Suc (length file_lines)] = length file_lines"
    by (simp del: upt_Suc)
  have "map snd (filter kept_line (zip [1..<Suc (length file_lines)] file_lines)) = header # rows"
    unfolding kept_fields [OF len] by (rule assms)
  then obtain x body where
    "filter kept_line (zip [1..<Suc (length file_lines)] file_lines) = x # body"
    "snd x = header" "map snd body = rows"
    by (auto simp: map_eq_Cons_conv)
  then show ?thesis
    using that [of "fst x" body] by (cases x) simp
qed

text \<open>
  C7, as the code has it. Loading is \<^verbatim>\<open>pd.read_csv\<close> with its defaults; the code checks no
  column count and names no error of its own. Take a file whose lines that are not blank are a
  header and the data lines \<open>rows\<close>, and let the width be the number of fields of the header,
  or of the first data line when that has more. When no data line after the first has more
  fields than the width, loading succeeds: the frame has one column for each field of the
  header and one record for each data line, and the cells that a short line lacks are missing.
  When a data line after the first has more fields than the width, loading raises
  \<^verbatim>\<open>ParserError\<close>, and the error names the first such line by its number in the file, with the
  width and the number of its fields.
\<close>

theorem read_csv_row_shapes:
  assumes "filter (\<lambda>l. \<not> blank_line l) file_lines = header # rows"
  shows
    "((\<forall>r\<in>set (tl rows). length r \<le> table_width (length header) rows) \<longrightarrow>
        (\<exists>frame. pandas_read_csv infer labels file_lines = Inr frame
           \<and> length frame = length header
           \<and> (\<forall>col\<in>set frame. length (snd col) = length rows)
           \<and> (\<forall>j i. j < length header \<longrightarrow> i < length rows \<longrightarrow>
                 length (rows ! i) \<le> table_width (length header) rows - length header + j \<longrightarrow>
                 snd (frame ! j) ! i = NaN)))
     \<and> ((\<exists>r\<in>set (tl rows). table_width (length header) rows < length r) \<longrightarrow>
           (\<exists>e. pandas_read_csv infer labels file_lines = Inl e
              \<and> exc_class e = ''ParserError''))
     \<and> (\<forall>pre good bad post. file_lines = pre @ bad # post \<longrightarrow>
           filter (\<lambda>l. \<not> blank_line l) pre = header # good \<longrightarrow> good \<noteq> [] \<longrightarrow>
           (\<forall>r\<in>set (tl good). length r \<le> table_width (length header) rows) \<longrightarrow>
           table_width (length header) rows < length bad \<longrightarrow>
           pandas_read_csv infer labels file_lines
             = Inl (parser_error (table_width (length header) rows) (Suc (length pre))
                 (length bad)))"
proof -
  define width where "width = table_width (length header) rows"
  obtain k body where
    kept: "filter kept_line (zip [1..<Suc (length file_lines)] file_lines) = (k, header) # body"
    and body: "map snd body = rows"
    by (rule read_kept [OF assms])
  have read: "pandas_read_csv infer labels file_lines
      = (case end_lines width body of
           Inl e \<Rightarrow> Inl e
         | Inr padded \<Rightarrow>
             Inr (map (\<lambda>j. (labels header j,
                    convert_column infer (map (\<lambda>row. row ! (width - length header + j)) padded)))
               [0..<length header]))"
    unfolding pandas_read_csv_def kept list.case prod.case Let_def body width_def
    by (rule refl)
  have padding: "\<exists>frame. pandas_read_csv infer labels file_lines = Inr frame
        \<and> length frame = length header
        \<and> (\<forall>col\<in>set frame. length (snd col) = length rows)
        \<and> (\<forall>j i. j < length header \<longrightarrow> i < length rows \<longrightarrow>
              length (rows ! i) \<le> width - length header + j \<longrightarrow> snd (frame ! j) ! i = NaN)"
    if short: "\<forall>r\<in>set (tl rows). length r \<le> width"
  proof -
    define padded where "padded = map (\<lambda>r. r @ replicate (width - length r) '''') rows"
    define frame where "frame
      = map (\<lambda>j. (labels header j,
               convert_column infer (map (\<lambda>row. row ! (width - length header + j)) padded)))
          [0..<length header]"
    have "\<forall>r\<in>set rows. length r \<le> width"
      using short unfolding width_def by (rule all_rows_fit)
    then have "\<forall>x\<in>set body. length (snd x) \<le> width"
      unfolding body [symmetric] by simp
    then have "end_lines width body = Inr padded"
      by (simp add: end_lines_pads body padded_def)
    then have "pandas_read_csv infer labels file_lines = Inr frame"
      by (simp add: read frame_def)
    moreover have "length frame = length header"
      by (simp add: frame_def)
    moreover have "\<forall>col\<in>set frame. length (snd col) = length rows"
      by (auto simp: frame_def convert_column_def padded_def)
    moreover have "snd (frame ! j) ! i = NaN"
      if "j < length header" "i < length rows" "length (rows ! i) \<le> width - length header + j"
      for j i
    proof -
      have "length header \<le> width"
        unfolding width_def by (rule table_width_ge)
      then have "width - length header + j < width"
        using that(1) by simp
      then have "padded ! i ! (width - length header + j) = ''''"
        using that by (simp add: padded_def nth_append)
      then show ?thesis
        using that by (simp add: frame_def convert_column_def padded_def empty_is_na)
    qed
    ultimately show ?thesis
      by blast
  qed
  have failing: "\<exists>e. pandas_read_csv infer labels file_lines = Inl e
        \<and> exc_class e = ''ParserError''"
    if "\<exists>r\<in>set (tl rows). width < length r"
  proof -
    have "\<exists>r\<in>set rows. width < length r"
      using that by (cases rows) auto
    then have "\<exists>x\<in>set body. width < length (snd x)"
      unfolding body [symmetric] by simp
    then obtain e where "end_lines width body = Inl e" "exc_class e = ''ParserError''"
      using end_lines_some_bad_line by blast
    then show ?thesis
      by (simp add: read)
  qed
  have naming: "pandas_read_csv infer labels file_lines
      = Inl (parser_error width (Suc (length pre)) (length bad))"
    if split: "file_lines = pre @ bad # post"
      and pre: "filter (\<lambda>l. \<not> blank_line l) pre = header # good"
      and "good \<noteq> []"
      and good: "\<forall>r\<in>set (tl good). length r \<le> width"
      and bad: "width < length bad"
    for pre good bad post
  proof -
    define numbered_pre where "numbered_pre = filter kept_line (zip [1..<Suc (length pre)] pre)"
    define numbered_post where "numbered_post = filter kept_line
      (zip [Suc (Suc (length pre))..<Suc (Suc (length pre)) + length post] post)"
    have "1 \<le> length header"
      using pre blank_line_def [of header]
      by (cases header) (auto simp: filter_eq_Cons_iff)
    then have "1 < length bad"
      using bad table_width_ge [of "length header" rows] by (simp add: width_def)
    then have "\<not> blank_line bad"
      using blank_line_short [of bad] by auto
    then have whole: "filter kept_line (zip [1..<Suc (length file_lines)] file_lines)
        = numbered_pre @ (Suc (length pre), bad) # numbered_post"
      unfolding split numbered_split numbered_pre_def numbered_post_def
      by (simp add: kept_line_def)
    have "length [1..<Suc (length pre)] = length pre"
      by (simp del: upt_Suc)
    then have "map snd numbered_pre = header # good"
      unfolding numbered_pre_def using pre by (simp only: kept_fields)
    then obtain x numbered_good where
      numbered: "numbered_pre = x # numbered_good" "map snd numbered_good = good"
      by (auto simp: map_eq_Cons_conv)
    have body': "body = numbered_good @ (Suc (length pre), bad) # numbered_post"
      using kept whole numbered by simp
    have "rows = good @ bad # map snd numbered_post"
      using body body' numbered by auto
    then have "width = table_width (length header) good"
      using \<open>good \<noteq> []\<close> by (simp add: width_def table_width_append)
    moreover have "\<forall>r\<in>set (tl good). length r \<le> table_width (length header) good"
      using good calculation by simp
    ultimately have "\<forall>r\<in>set good. length r \<le> width"
      using all_rows_fit [of good "length header"] by simp
    then have "\<forall>x\<in>set numbered_good. length (snd x) \<le> width"
      unfolding numbered(2) [symmetric] by simp
    then have "end_lines width body = Inl (parser_error width (Suc (length pre)) (length bad))"
      unfolding body' using bad by (rule end_lines_bad_line)
    then show ?thesis
      by (simp add: read)
  qed
  from padding failing naming show ?thesis
    unfolding width_def by blast
qed

lemma upt_1_4: "[1..<Suc 3] = [1, 2, 3]"
  by (simp add: upt_rec)

lemma upt_1_6: "[1..<Suc 5] = [1, 2, 3, 4, 5]"
  by (simp add: upt_rec)

lemma read_short_row_lines:
  "pandas_read_csv text_columns as_given short_row_lines = Inr short_row_frame"
  by (simp add: pandas_read_csv_def short_row_lines_def short_row_frame_def upt_1_4
      kept_line_def blank_line_def table_width_def convert_column_def text_columns_def
      as_given_def na_values_def upt_rec [of 0])

lemma read_long_row_lines:
  "pandas_read_csv text_columns as_given long_row_lines = Inl (parser_error 2 3 3)"
  by (simp add: pandas_read_csv_def long_row_lines_def upt_1_4 kept_line_def blank_line_def
      table_width_def numeral_2_eq_2 numeral_3_eq_3)

lemma read_indexed_lines:
  "pandas_read_csv text_columns as_given indexed_lines = Inl (parser_error 3 5 4)"
  by (simp add: pandas_read_csv_def indexed_lines_def upt_1_6 kept_line_def blank_line_def
      table_width_def eval_nat_numeral)

theorem read_csv_row_shapes_witness:
  "filter (\<lambda>l. \<not> blank_line l) short_row_lines
     = [''Name'', ''Department''] # [[''Alice'', ''HR''], [''Bob'']]
   \<and> table_width 2 [[''Alice'', ''HR''], [''Bob'']] = 2
   \<and> pandas_read_csv text_columns as_given short_row_lines = Inr short_row_frame
   \<and> snd (short_row_frame ! 1) ! 1 = NaN
   \<and> filter (\<lambda>l. \<not> blank_line l) indexed_lines
     = [''Name'', ''Department'']
         # [[''7'', ''Alice'', ''HR''], [''8'', ''Bob''], [''9'', ''Carol'', ''IT'', ''Leeds'']]
   \<and> table_width 2
        [[''7'', ''Alice'', ''HR''], [''8'', ''Bob''], [''9'', ''Carol'', ''IT'', ''Leeds'']] = 3
   \<and> indexed_lines = take 4 indexed_lines @ [''9'', ''Carol'', ''IT'', ''Leeds''] # []
   \<and> filter (\<lambda>l. \<not> blank_line l) (take 4 indexed_lines)
     = [''Name'', ''Department''] # [[''7'', ''Alice'', ''HR''], [''8'', ''Bob'']]
   \<and> pandas_read_csv text_columns as_given indexed_lines = Inl (parser_error 3 5 4)
   \<and> filter (\<lambda>l. \<not> blank_line l) long_row_lines
     = [''Name'', ''Department''] # [[''Alice'', ''HR''], [''Bob'', ''IT'', ''Leeds'']]
   \<and> table_width 2 [[''Alice'', ''HR''], [''Bob'', ''IT'', ''Leeds'']] = 2
   \<and> pandas_read_csv text_columns as_given long_row_lines = Inl (parser_error 2 3 3)"
  using read_csv_row_shapes [of short_row_lines "[''Name'', ''Department'']"
      "[[''Alice'', ''HR''], [''Bob'']]" text_columns as_given]
    read_csv_row_shapes [of long_row_lines "[''Name'', ''Department'']"
      "[[''Alice'', ''HR''], [''Bob'', ''IT'', ''Leeds'']]" text_columns as_given]
    read_csv_row_shapes [of indexed_lines "[''Name'', ''Department'']"
      "[[''7'', ''Alice'', ''HR''], [''8'', ''Bob''], [''9'', ''Carol'', ''IT'', ''Leeds'']]"
      text_columns as_given]
  by (simp add: read_short_row_lines read_indexed_lines read_long_row_lines)
    (simp add: short_row_lines_def indexed_lines_def long_row_lines_def short_row_frame_def
      blank_line_def table_width_def)

text \<open>
  C7 as stated fails. The third line of this file has one field against the two of the header.
  Loading it does not fail: it gives a frame with one missing cell, and the run goes on to warn
  about that cell and to complete.
\<close>

theorem short_row_is_loaded:
  "length (short_row_lines ! 2) < length (short_row_lines ! 0)
   \<and> pandas_read_csv text_columns as_given short_row_lines = Inr short_row_frame
   \<and> count_missing short_row_frame = 1
   \<and> map levelname (logged (snd (process_csv (env_with short_row_frame) ''data.csv'' world0)))
       = [INFO, WARNING, INFO]
   \<and> map levelname
       (logged (snd (logcsvfile_process_csv (env_with short_row_frame) ''data.csv'' world0)))
       = [INFO, WARNING, INFO]"
proof -
  have n: "count_missing short_row_frame = 1"
    by (simp add: count_missing_filter short_row_frame_def)
  have loaded: "read_csv (env_with short_row_frame) ''data.csv'' = Inr short_row_frame"
    by (rule read_csv_env_with)
  have filled: "fillna (pandas_upcasts (env_with short_row_frame)) ''UNKNOWN'' short_row_frame
      = Inr (fill_all (PyStr ''UNKNOWN'') short_row_frame)"
    by (simp add: read_csv_env_with fillna_staff)
  show ?thesis
    using n
    by (simp add: read_short_row_lines process_csv_completes [OF loaded filled]
        process_csv_try_completes [OF loaded filled]
        logcsvfile_process_csv_try_completes [OF loaded filled] world0_def)
      (simp add: short_row_lines_def)
qed

end
